theory Spec2Isabelle
  imports Main "HOL-Library.AList" "HOL-Library.Monad_Syntax"
begin

section \<open>JavaScript values that the agent handles\<close>

text \<open>
  A value that a \<^verbatim>\<open>throw\<close> raises or a promise rejects with. \<open>ErrorObj name message\<close>
  is an instance of \<^verbatim>\<open>Error\<close> (or of a subclass such as \<^verbatim>\<open>TypeError\<close>).
  \<open>ThrownValue s\<close> is any other thrown value that has a string form, \<open>s\<close> being what
  \<^verbatim>\<open>String(value)\<close> gives. \<open>ThrownOpaque name message\<close> is a thrown value that is no
  \<^verbatim>\<open>Error\<close> and has no string form: \<^verbatim>\<open>String(value)\<close> throws the error object with this
  name and message. For \<^verbatim>\<open>Object.create(null)\<close> that is the \<^verbatim>\<open>TypeError\<close> of
  \<open>no_primitive_value\<close>. The conversion is taken to throw an error object, as the
  built-in conversion does.
\<close>

datatype thrown = ErrorObj string string | ThrownValue string | ThrownOpaque string string

text \<open>An error object, by its name and its message.\<close>

type_synonym error_object = "string \<times> string"

definition thrown_of :: "error_object \<Rightarrow> thrown" where
  "thrown_of e = (case e of (n, m) \<Rightarrow> ErrorObj n m)"

definition no_primitive_value :: error_object where
  "no_primitive_value = (''TypeError'', ''Cannot convert object to primitive value'')"

definition Error :: "string \<Rightarrow> thrown" where
  "Error m = ErrorObj ''Error'' m"

definition TypeError :: "string \<Rightarrow> thrown" where
  "TypeError m = ErrorObj ''TypeError'' m"

text \<open>\<^verbatim>\<open>error instanceof Error\<close> and \<^verbatim>\<open>error.message\<close>.\<close>

fun instanceof_Error :: "thrown \<Rightarrow> bool" where
  "instanceof_Error (ErrorObj n m) = True"
| "instanceof_Error (ThrownValue s) = False"
| "instanceof_Error (ThrownOpaque n m) = False"

fun message :: "thrown \<Rightarrow> string" where
  "message (ErrorObj n m) = m"
| "message (ThrownValue s) = []"
| "message (ThrownOpaque n m) = []"

text \<open>
  \<^verbatim>\<open>Error.prototype.toString\<close> joins name and message with \<^verbatim>\<open>": "\<close> unless one of them
  is empty.
\<close>

definition String_error :: "error_object \<Rightarrow> string" where
  "String_error e =
     (case e of (n, m) \<Rightarrow> if n = [] then m else if m = [] then n else n @ '': '' @ m)"

text \<open>
  \<^verbatim>\<open>String(error)\<close> and the template \<^verbatim>\<open>`${error}`\<close>: the string (\<open>Inr\<close>), or the error
  object that the conversion throws (\<open>Inl\<close>).
\<close>

fun String_thrown :: "thrown \<Rightarrow> error_object + string" where
  "String_thrown (ErrorObj n m) = Inr (String_error (n, m))"
| "String_thrown (ThrownValue s) = Inr s"
| "String_thrown (ThrownOpaque n m) = Inl (n, m)"

text \<open>
  The values a tool handler resolves with (\<^verbatim>\<open>Promise<any>\<close>), as far as their string
  form is defined without floating point: strings, bigints, booleans, \<^verbatim>\<open>null\<close> and
  \<^verbatim>\<open>undefined\<close>.
\<close>

datatype js_value = VString string | VBigInt int | VBool bool | VNull | VUndefined

definition digit_char :: "nat \<Rightarrow> char" where
  "digit_char d = char_of (of_char (CHR ''0'') + d)"

fun decimal :: "nat \<Rightarrow> string" where
  "decimal n = (if n < 10 then [digit_char n] else decimal (n div 10) @ [digit_char (n mod 10)])"

declare decimal.simps [simp del]

fun String_value :: "js_value \<Rightarrow> string" where
  "String_value (VString s) = s"
| "String_value (VBigInt i) = (if i < 0 then ''-'' @ decimal (nat (- i)) else decimal (nat i))"
| "String_value (VBool b) = (if b then ''true'' else ''false'')"
| "String_value VNull = ''null''"
| "String_value VUndefined = ''undefined''"

text \<open>
  \<^verbatim>\<open>String.prototype.toLowerCase\<close> on the ASCII letters; strings are byte strings, and
  every other byte is left as it is. The names of the token table are ASCII, and no
  character outside ASCII has one of their letters as its lower case, so comparing the
  lower-cased byte strings with these names decides what the comparison in JavaScript does.
\<close>

definition toLowerCase_char :: "char \<Rightarrow> char" where
  "toLowerCase_char c =
     (let n = (of_char c :: nat) in if 65 \<le> n \<and> n \<le> 90 then char_of (n + 32) else c)"

definition toLowerCase :: "string \<Rightarrow> string" where
  "toLowerCase s = map toLowerCase_char s"

text \<open>\<^verbatim>\<open>Array.prototype.join\<close> of strings.\<close>

fun join :: "string \<Rightarrow> string list \<Rightarrow> string" where
  "join sep [] = []"
| "join sep [x] = x"
| "join sep (x # y # ys) = x @ sep @ join sep (y # ys)"

section \<open>The logger\<close>

datatype log_level = LError | LWarn | LInfo | LHttp | LDebug

type_synonym log_entry = "log_level \<times> string"

section \<open>Tools\<close>

text \<open>The wallet client, as far as the agent reads it: \<^verbatim>\<open>walletClient.account?.address\<close>.\<close>

record WalletClient =
  account_address :: "string option"

type_synonym tool_env_configs = "(string \<times> string) list"

record tool_definition =
  fn_name :: string
  fn_description :: string
  fn_required :: "string list"

text \<open>
  What an asynchronous function logs, in the segments in which it runs: the first list
  holds the lines it logs before it is suspended for the first time (they are written
  while the caller runs), the next list the lines between the first \<^verbatim>\<open>await\<close> and the
  second, and so on.
\<close>

type_synonym segments = "log_entry list list"

definition log_line :: "log_entry \<Rightarrow> segments \<Rightarrow> segments" where
  "log_line e segs = (case rev segs of [] \<Rightarrow> [[e]] | s # before \<Rightarrow> rev before @ [s @ [e]])"

definition suspend :: "segments \<Rightarrow> segments" where
  "suspend segs = segs @ [[]]"

definition first_segment :: "segments \<Rightarrow> log_entry list" where
  "first_segment segs = (case segs of [] \<Rightarrow> [] | s # later \<Rightarrow> s)"

definition later_segments :: "segments \<Rightarrow> log_entry list" where
  "later_segments segs = (case segs of [] \<Rightarrow> [] | s # later \<Rightarrow> concat later)"

text \<open>
  A handler takes the parsed arguments, the wallet client and the tool configuration. It
  gives back what it logged and either the value it resolved with (\<open>Inr\<close>) or what it
  rejected with (\<open>Inl\<close>). The type \<open>'j\<close> is the type of parsed argument payloads.
\<close>

type_synonym 'j handler =
  "'j \<Rightarrow> WalletClient \<Rightarrow> tool_env_configs \<Rightarrow> segments \<times> (thrown + js_value)"

record 'j Tool =
  tool_def :: tool_definition
  handler :: "'j handler"

text \<open>
  The registry \<^verbatim>\<open>toolRegistry\<close> is an object literal used as a dictionary. Its own
  properties are an association list in the order of their insertion. Reading
  \<^verbatim>\<open>toolRegistry[name]\<close> gives the own property of that name when there is one; otherwise it
  goes on to the prototype of the object, \<^verbatim>\<open>Object.prototype\<close>, and gives one of its
  properties when \<open>name\<close> is one of their names; otherwise it gives \<^verbatim>\<open>undefined\<close>. The
  properties of \<^verbatim>\<open>Object.prototype\<close> are functions (and, for \<^verbatim>\<open>__proto__\<close>, the prototype
  itself): they are truthy and have no \<^verbatim>\<open>handler\<close>.
\<close>

type_synonym 'j registry = "(string \<times> 'j Tool) list"

definition Object_prototype_names :: "string list" where
  "Object_prototype_names =
     [''constructor'', ''__defineGetter__'', ''__defineSetter__'', ''hasOwnProperty'',
      ''__lookupGetter__'', ''__lookupSetter__'', ''isPrototypeOf'', ''propertyIsEnumerable'',
      ''toString'', ''valueOf'', ''__proto__'', ''toLocaleString'']"

datatype 'j property = Own "'j Tool" | Inherited | Undefined

definition get_property :: "'j registry \<Rightarrow> string \<Rightarrow> 'j property" where
  "get_property toolRegistry name =
     (case map_of toolRegistry name of
        Some tool \<Rightarrow> Own tool
      | None \<Rightarrow> if name \<in> set Object_prototype_names then Inherited else Undefined)"

text \<open>
  \<^verbatim>\<open>registerTool\<close> assigns \<^verbatim>\<open>toolRegistry[name]\<close>: an own property is replaced where it
  is, a new one is added at the end. (Assigning the name \<^verbatim>\<open>__proto__\<close> would replace the
  prototype instead; the association list has no place for that.)
\<close>

definition registerTool :: "string \<Rightarrow> 'j Tool \<Rightarrow> 'j registry \<Rightarrow> 'j registry" where
  "registerTool name tool toolRegistry = AList.update name tool toolRegistry"

definition getTool :: "string \<Rightarrow> 'j registry \<Rightarrow> 'j property" where
  "getTool name toolRegistry = get_property toolRegistry name"

text \<open>
  \<^verbatim>\<open>Object.values\<close> lists the own properties whose names are array indices first, in
  ascending order of the index, and then the others in the order of their insertion. An
  array index is the decimal numeral, without leading zeros, of a number below
  \<open>2\<^sup>3\<^sup>2 - 1\<close>.
\<close>

definition is_digit :: "char \<Rightarrow> bool" where
  "is_digit c = (48 \<le> (of_char c :: nat) \<and> (of_char c :: nat) \<le> 57)"

definition decimal_value :: "string \<Rightarrow> nat" where
  "decimal_value s = foldl (\<lambda>n c. 10 * n + ((of_char c :: nat) - 48)) 0 s"

definition is_array_index :: "string \<Rightarrow> bool" where
  "is_array_index s =
     (s \<noteq> [] \<and> list_all is_digit s \<and> (s = ''0'' \<or> hd s \<noteq> CHR ''0'')
      \<and> decimal_value s < 4294967295)"

definition Object_values :: "'j registry \<Rightarrow> 'j Tool list" where
  "Object_values toolRegistry =
     map snd (sort_key (\<lambda>(name, tool). decimal_value name)
                (filter (\<lambda>(name, tool). is_array_index name) toolRegistry)
              @ filter (\<lambda>(name, tool). \<not> is_array_index name) toolRegistry)"

section \<open>The token table and the \<^verbatim>\<open>get_token_balance\<close> tool\<close>

definition TOKEN :: "(string \<times> string) list" where
  "TOKEN = [(''WMON'', ''0x760AfE86e5de5fa0Ee542fc7B7B713e1c5425701''),
            (''MONAI'', ''0x7348fac1b35be27b0b636f0881afc9449ec54ba5'')]"

text \<open>
  The arguments of the two built-in tools, as the interfaces \<^verbatim>\<open>GetBalanceArgs\<close> and
  \<^verbatim>\<open>GetTokenBalanceArgs\<close> declare them: \<^verbatim>\<open>get_balance\<close> reads \<^verbatim>\<open>wallet\<close> only. \<open>None\<close> is
  a property that is absent (\<^verbatim>\<open>undefined\<close>).
\<close>

record GetTokenBalanceArgs =
  wallet :: "string option"
  tokenName :: "string option"

text \<open>
  The chain, read through viem: \<^verbatim>\<open>publicClient.readContract\<close> for \<^verbatim>\<open>balanceOf\<close> (token
  address, then wallet address), \<^verbatim>\<open>fetchTokenDecimalsAndFormatAmount\<close> (token address, raw
  amount) and \<^verbatim>\<open>publicClient.getBalance\<close> followed by \<^verbatim>\<open>formatEther\<close>.
\<close>

record Chain =
  readContract_balanceOf :: "string \<Rightarrow> string \<Rightarrow> thrown + int"
  fetchTokenDecimalsAndFormatAmount :: "string \<Rightarrow> int \<Rightarrow> thrown + string"
  getBalance_formatEther :: "string \<Rightarrow> thrown + string"

text \<open>\<^verbatim>\<open>a || b\<close> on optional strings: the empty string is falsy as well.\<close>

definition or_else :: "string option \<Rightarrow> string option \<Rightarrow> string option" where
  "or_else a b = (case a of Some s \<Rightarrow> (if s = [] then b else Some s) | None \<Rightarrow> b)"

definition falsy :: "string option \<Rightarrow> bool" where
  "falsy a = (case a of None \<Rightarrow> True | Some s \<Rightarrow> s = [])"

text \<open>
  \<^verbatim>\<open>Object.keys(TOKEN).find(key => key.toLowerCase() === tokenName.toLowerCase())\<close>
\<close>

definition findTokenName :: "string \<Rightarrow> string option" where
  "findTokenName name = find (\<lambda>key. toLowerCase key = toLowerCase name) (map fst TOKEN)"

definition dquote :: string where
  "dquote = [char_of (34 :: nat)]"

definition token_not_found_message :: "string \<Rightarrow> string" where
  "token_not_found_message name =
     ''Token '' @ dquote @ name @ dquote @ '' not found. Available tokens: ''
       @ join '', '' (map fst TOKEN)"

text \<open>
  The body of the handler's \<^verbatim>\<open>try\<close> block: the log lines written so far and the result.
  The block is suspended twice, at the two \<^verbatim>\<open>await\<close>s.
\<close>

definition getTokenBalance_try ::
  "Chain \<Rightarrow> GetTokenBalanceArgs \<Rightarrow> WalletClient \<Rightarrow> segments \<times> (thrown + string)" where
  "getTokenBalance_try chain args walletClient =
     (case or_else (wallet args) (account_address walletClient) of
        None \<Rightarrow>
          ([[]], Inl (Error ''No wallet address provided and no wallet client account available''))
      | Some address \<Rightarrow>
          (case (if falsy (tokenName args) then None else tokenName args) of
             None \<Rightarrow> ([[]], Inl (Error ''Token name is required''))
           | Some name \<Rightarrow>
               (let l1 = log_line (LInfo, ''Getting '' @ name @ '' balance for '' @ address) [[]] in
                case findTokenName name of
                  None \<Rightarrow> (l1, Inl (Error (token_not_found_message name)))
                | Some foundTokenName \<Rightarrow>
                    (case map_of TOKEN foundTokenName of
                       None \<Rightarrow>
                         (l1, Inl (Error (''Token '' @ dquote @ foundTokenName @ dquote
                                            @ '' address not found'')))
                     | Some tokenAddress \<Rightarrow>
                         (let l2 = suspend (log_line (LDebug, ''Using token address: ''
                                                        @ tokenAddress) l1) in
                          case readContract_balanceOf chain tokenAddress address of
                            Inl e \<Rightarrow> (l2, Inl e)
                          | Inr rawTokenBalance \<Rightarrow>
                              (let l3 = suspend l2 in
                               case fetchTokenDecimalsAndFormatAmount chain tokenAddress
                                      rawTokenBalance of
                                 Inl e \<Rightarrow> (l3, Inl e)
                               | Inr formattedTokenBalance \<Rightarrow>
                                   (log_line (LDebug, foundTokenName @ '' balance: ''
                                                @ formattedTokenBalance) l3,
                                    Inr formattedTokenBalance)))))))"

text \<open>
  The handler: the \<^verbatim>\<open>catch\<close> block logs and rethrows a wrapped error. Both need the
  string form of the caught value; when there is none, what the conversion throws leaves the
  \<^verbatim>\<open>catch\<close> block before anything is logged.
\<close>

definition getTokenBalance_handler :: "Chain \<Rightarrow> GetTokenBalanceArgs handler" where
  "getTokenBalance_handler chain args walletClient toolEnvConfigs =
     (case getTokenBalance_try chain args walletClient of
        (ls, Inr formattedTokenBalance) \<Rightarrow> (ls, Inr (VString formattedTokenBalance))
      | (ls, Inl error) \<Rightarrow>
          (case String_thrown error of
             Inl e \<Rightarrow> (ls, Inl (thrown_of e))
           | Inr s \<Rightarrow>
               (log_line (LError, ''Failed to get token balance: '' @ s) ls,
                Inl (Error (''Failed to get token balance: '' @ s)))))"

definition getTokenBalanceTool :: "Chain \<Rightarrow> GetTokenBalanceArgs Tool" where
  "getTokenBalanceTool chain =
     \<lparr> tool_def = \<lparr> fn_name = ''get_token_balance'',
                      fn_description = ''Get the balance of an ERC20 token for a wallet'',
                      fn_required = [''tokenName''] \<rparr>,
       handler = getTokenBalance_handler chain \<rparr>"

text \<open>The \<^verbatim>\<open>get_balance\<close> tool reads only the \<^verbatim>\<open>wallet\<close> argument.\<close>

definition getBalance_handler :: "Chain \<Rightarrow> GetTokenBalanceArgs handler" where
  "getBalance_handler chain args walletClient toolEnvConfigs =
     (case (case or_else (wallet args) (account_address walletClient) of
              None \<Rightarrow>
                ([[]], Inl (Error
                   ''No wallet address provided and no wallet client account available''))
            | Some address \<Rightarrow>
                (let l1 = suspend (log_line (LInfo, ''Getting native token balance for ''
                                               @ address) [[]]) in
                 case getBalance_formatEther chain address of
                   Inl e \<Rightarrow> (l1, Inl e)
                 | Inr formattedBalance \<Rightarrow>
                     (log_line (LDebug, ''Balance: '' @ formattedBalance) l1,
                      Inr formattedBalance)))
      of
        (ls, Inr formattedBalance) \<Rightarrow> (ls, Inr (VString formattedBalance))
      | (ls, Inl error) \<Rightarrow>
          (case String_thrown error of
             Inl e \<Rightarrow> (ls, Inl (thrown_of e))
           | Inr s \<Rightarrow>
               (log_line (LError, ''Failed to get balance: '' @ s) ls,
                Inl (Error (''Failed to get balance: '' @ s)))))"

definition getBalanceTool :: "Chain \<Rightarrow> GetTokenBalanceArgs Tool" where
  "getBalanceTool chain =
     \<lparr> tool_def = \<lparr> fn_name = ''get_balance'',
                      fn_description = ''Get the native token balance of a wallet. If wallet is not provided, it will use the current wallet provider'',
                      fn_required = [] \<rparr>,
       handler = getBalance_handler chain \<rparr>"

text \<open>The registry as the module creates it.\<close>

definition toolRegistry0 :: "Chain \<Rightarrow> GetTokenBalanceArgs registry" where
  "toolRegistry0 chain =
     [(''get_balance'', getBalanceTool chain), (''get_token_balance'', getTokenBalanceTool chain)]"

section \<open>The remote assistant runtime\<close>

record Assistant =
  assistant_id :: string

record Thread =
  thread_id :: string

datatype run_status =
  Queued | InProgress | RequiresAction | Cancelling | Cancelled | Failed | Completed
  | Incomplete | Expired

record tool_call =
  call_id :: string
  function_name :: string
  function_arguments :: string

text \<open>
  \<^verbatim>\<open>run.required_action\<close>: its \<^verbatim>\<open>type\<close> and \<^verbatim>\<open>submit_tool_outputs.tool_calls\<close>.
\<close>

record RequiredAction =
  ra_type :: string
  tool_calls :: "tool_call list"

record Run =
  run_id :: string
  status :: run_status
  required_action :: "RequiredAction option"

datatype content_block =
  TextContent string | ImageFileContent string | ImageUrlContent string | RefusalContent string

fun content_type :: "content_block \<Rightarrow> string" where
  "content_type (TextContent v) = ''text''"
| "content_type (ImageFileContent f) = ''image_file''"
| "content_type (ImageUrlContent u) = ''image_url''"
| "content_type (RefusalContent r) = ''refusal''"

record Message =
  role :: string
  content :: "content_block list"

record ToolOutput =
  tool_call_id :: string
  output_text :: string

record AssistantCreateParams =
  model :: string
  temperature :: string
  assistant_name :: string
  instructions :: string
  tools :: "tool_definition list"

text \<open>The operations the agent issues against the runtime, with their arguments.\<close>

datatype remote_op =
    AssistantsCreate AssistantCreateParams
  | AssistantsRetrieve string
  | ThreadsCreate
  | ThreadsRetrieve string
  | MessagesCreate string string string
  | RunsCreate string string
  | RunsRetrieve string string
  | SubmitToolOutputsAndPoll string string "ToolOutput list"
  | MessagesList string

text \<open>
  The client \<^verbatim>\<open>openAIClient.beta\<close>. The runtime is a black box: what an operation answers
  may depend on every operation issued before it, so each operation takes that history
  (oldest first) and answers with a value (\<open>Inr\<close>) or a rejection (\<open>Inl\<close>).
\<close>

record OpenAI =
  assistants_create :: "remote_op list \<Rightarrow> AssistantCreateParams \<Rightarrow> thrown + Assistant"
  assistants_retrieve :: "remote_op list \<Rightarrow> string \<Rightarrow> thrown + Assistant"
  threads_create :: "remote_op list \<Rightarrow> thrown + Thread"
  threads_retrieve :: "remote_op list \<Rightarrow> string \<Rightarrow> thrown + Thread"
  messages_create :: "remote_op list \<Rightarrow> string \<Rightarrow> string \<Rightarrow> string \<Rightarrow> thrown + unit"
  runs_create :: "remote_op list \<Rightarrow> string \<Rightarrow> string \<Rightarrow> thrown + Run"
  runs_retrieve :: "remote_op list \<Rightarrow> string \<Rightarrow> string \<Rightarrow> thrown + Run"
  runs_submitToolOutputsAndPoll ::
    "remote_op list \<Rightarrow> string \<Rightarrow> string \<Rightarrow> ToolOutput list \<Rightarrow> thrown + Run"
  messages_list :: "remote_op list \<Rightarrow> string \<Rightarrow> thrown + Message list"

text \<open>
  \<^verbatim>\<open>JSON.parse\<close> of a tool call's argument text, and \<^verbatim>\<open>JSON.stringify(run, null, 2)\<close>.
\<close>

record 'j JSON =
  parse :: "string \<Rightarrow> thrown + 'j"
  stringify :: "Run \<Rightarrow> string"

section \<open>The world outside the session: remote history, log, tool registry\<close>

record 'j World =
  calls :: "remote_op list"
  logs :: "log_entry list"
  toolRegistry :: "'j registry"

definition log :: "log_level \<Rightarrow> string \<Rightarrow> 'j World \<Rightarrow> 'j World" where
  "log level msg w = w\<lparr>logs := logs w @ [(level, msg)]\<rparr>"

definition issue :: "remote_op \<Rightarrow> 'j World \<Rightarrow> 'j World" where
  "issue op w = w\<lparr>calls := calls w @ [op]\<rparr>"

definition initTools :: "'j World \<Rightarrow> 'j registry" where
  "initTools w = toolRegistry w"

section \<open>The agent\<close>

record MonAIAgentConfig =
  cfg_walletClient :: "WalletClient option"
  cfg_openAIClient :: OpenAI
  cfg_toolEnvConfigs :: "tool_env_configs option"
  cfg_prompts :: "string option"
  cfg_assistantId :: "string option"
  cfg_threadId :: "string option"

record MonAIAgent =
  openAIClient :: OpenAI
  assistant :: "Assistant option"
  thread :: "Thread option"
  threadID :: string
  walletClient :: WalletClient
  toolEnvConfigs :: tool_env_configs
  isInitialized :: bool
  assistantId :: string
  prompts :: string

text \<open>\<^verbatim>\<open>config.x || ""\<close>\<close>

definition or_empty :: "string option \<Rightarrow> string" where
  "or_empty a = (case a of None \<Rightarrow> [] | Some s \<Rightarrow> s)"

text \<open>
  The constructor. \<open>createViemWalletClient\<close> is what the function of that name gives when
  the configuration has no wallet client: a client, or the error for a missing private key.
\<close>

definition constructor ::
  "(thrown + WalletClient) \<Rightarrow> MonAIAgentConfig \<Rightarrow> thrown + MonAIAgent" where
  "constructor createViemWalletClient config =
     (case (case cfg_walletClient config of
              Some wc \<Rightarrow> Inr wc
            | None \<Rightarrow> createViemWalletClient) of
        Inl e \<Rightarrow> Inl e
      | Inr wc \<Rightarrow>
          Inr \<lparr> openAIClient = cfg_openAIClient config,
                assistant = None,
                thread = None,
                threadID = or_empty (cfg_threadId config),
                walletClient = wc,
                toolEnvConfigs = (case cfg_toolEnvConfigs config of None \<Rightarrow> [] | Some c \<Rightarrow> c),
                isInitialized = False,
                assistantId = or_empty (cfg_assistantId config),
                prompts = or_empty (cfg_prompts config) \<rparr>)"

definition createAssistant ::
  "MonAIAgent \<Rightarrow> 'j World \<Rightarrow> (thrown + Assistant) \<times> 'j World" where
  "createAssistant a w =
     (let params = \<lparr> model = ''gpt-4'',
                      temperature = ''0.3'',
                      assistant_name = ''MonAI Assistant'',
                      instructions = prompts a,
                      tools = map tool_def (Object_values (initTools w)) \<rparr>
      in (assistants_create (openAIClient a) (calls w) params, issue (AssistantsCreate params) w))"

definition retrieveAssistant ::
  "MonAIAgent \<Rightarrow> 'j World \<Rightarrow> (thrown + Assistant) \<times> 'j World" where
  "retrieveAssistant a w =
     (assistants_retrieve (openAIClient a) (calls w) (assistantId a),
      issue (AssistantsRetrieve (assistantId a)) w)"

definition createThread ::
  "MonAIAgent \<Rightarrow> string option \<Rightarrow> 'j World \<Rightarrow> (thrown + Thread) \<times> 'j World" where
  "createThread a msg w =
     (let w1 = issue ThreadsCreate w in
      case threads_create (openAIClient a) (calls w) of
        Inl e \<Rightarrow> (Inl e, w1)
      | Inr th \<Rightarrow>
          (if falsy msg then (Inr th, w1)
           else
             (let w2 = issue (MessagesCreate (thread_id th) ''user'' (or_empty msg)) w1 in
              case messages_create (openAIClient a) (calls w1) (thread_id th) ''user''
                     (or_empty msg) of
                Inl e \<Rightarrow> (Inl e, w2)
              | Inr u \<Rightarrow> (Inr th, w2))))"

definition retrieveThread ::
  "MonAIAgent \<Rightarrow> string \<Rightarrow> 'j World \<Rightarrow> (thrown + Thread) \<times> 'j World" where
  "retrieveThread a tid w =
     (threads_retrieve (openAIClient a) (calls w) tid, issue (ThreadsRetrieve tid) w)"

text \<open>
  \<^verbatim>\<open>initialize\<close>, in its two steps. The first resolves the assistant: retrieval, and
  creation when retrieval rejects; a creation that rejects ends \<^verbatim>\<open>initialize\<close>.
\<close>

definition initialize_assistant ::
  "MonAIAgent \<Rightarrow> 'j World \<Rightarrow> (thrown + unit) \<times> MonAIAgent \<times> 'j World" where
  "initialize_assistant a w =
     (if assistant a = None then
        (case retrieveAssistant a w of
           (Inr found, w1) \<Rightarrow> (Inr (), a\<lparr>assistant := Some found\<rparr>, w1)
         | (Inl error, w1) \<Rightarrow>
             (case createAssistant a w1 of
                (Inr created, w2) \<Rightarrow>
                  (Inr (), a\<lparr>assistant := Some created, assistantId := assistant_id created\<rparr>, w2)
              | (Inl e, w2) \<Rightarrow> (Inl e, a, w2)))
      else
        (case createAssistant a w of
           (Inr created, w1) \<Rightarrow>
             (Inr (), a\<lparr>assistant := Some created, assistantId := assistant_id created\<rparr>, w1)
         | (Inl e, w1) \<Rightarrow> (Inl e, a, w1)))"

text \<open>The second step resolves the thread.\<close>

definition initialize_thread ::
  "MonAIAgent \<Rightarrow> 'j World \<Rightarrow> (thrown + unit) \<times> MonAIAgent \<times> 'j World" where
  "initialize_thread a w =
     (if threadID a = [] then
        (case createThread a None w of
           (Inr created, w1) \<Rightarrow> (Inr (), a\<lparr>thread := Some created\<rparr>, w1)
         | (Inl e, w1) \<Rightarrow> (Inl e, a, w1))
      else
        (case retrieveThread a (threadID a) w of
           (Inr found, w1) \<Rightarrow> (Inr (), a\<lparr>thread := Some found\<rparr>, w1)
         | (Inl e, w1) \<Rightarrow> (Inl e, a, w1)))"

definition initialize ::
  "MonAIAgent \<Rightarrow> 'j World \<Rightarrow> (thrown + unit) \<times> MonAIAgent \<times> 'j World" where
  "initialize a w =
     (if isInitialized a then (Inr (), a, log LInfo ''Agent already initialized'' w)
      else
        (case initialize_assistant a w of
           (Inl e, a1, w1) \<Rightarrow> (Inl e, a1, w1)
         | (Inr u, a1, w1) \<Rightarrow>
             (case initialize_thread a1 w1 of
                (Inl e, a2, w2) \<Rightarrow> (Inl e, a2, w2)
              | (Inr v, a2, w2) \<Rightarrow> (Inr (), a2\<lparr>isInitialized := True\<rparr>, w2))))"

section \<open>The run driver\<close>

text \<open>
  \<^verbatim>\<open>createRun\<close> creates the run and polls while it is queued or in progress. The loop
  has no bound of its own: \<open>None\<close> is a loop that never ends. The one-second wait between
  two polls changes nothing the agent reads and is not part of the state.
\<close>

partial_function (option) createRun_poll ::
  "MonAIAgent \<Rightarrow> Run \<Rightarrow> 'j World \<Rightarrow> ((thrown + Run) \<times> 'j World) option" where
  "createRun_poll a run w =
     (if status run = InProgress \<or> status run = Queued then
        (case runs_retrieve (openAIClient a) (calls w) (threadID a) (run_id run) of
           Inl e \<Rightarrow> Some (Inl e, issue (RunsRetrieve (threadID a) (run_id run)) w)
         | Inr run' \<Rightarrow> createRun_poll a run' (issue (RunsRetrieve (threadID a) (run_id run)) w))
      else Some (Inr run, w))"

declare createRun_poll.simps [code]

definition createRun ::
  "MonAIAgent \<Rightarrow> 'j World \<Rightarrow> ((thrown + Run) \<times> 'j World) option" where
  "createRun a w =
     (let w1 = log LInfo (''Running for thread '' @ threadID a @ '' with assistant ''
                            @ assistantId a) w;
          w2 = issue (RunsCreate (threadID a) (assistantId a)) w1
      in case runs_create (openAIClient a) (calls w1) (threadID a) (assistantId a) of
           Inl e \<Rightarrow> Some (Inl e, w2)
         | Inr run \<Rightarrow> createRun_poll a run w2)"

text \<open>
  \<^verbatim>\<open>error instanceof Error ? error.message : String(error)\<close>: the message (\<open>Inr\<close>), or
  the error object that \<^verbatim>\<open>String(error)\<close> throws (\<open>Inl\<close>).
\<close>

definition errorMessage :: "thrown \<Rightarrow> error_object + string" where
  "errorMessage error =
     (if instanceof_Error error then Inr (message error) else String_thrown error)"

text \<open>
  What \<^verbatim>\<open>Promise.allSettled\<close> gives for a promise: the value it is fulfilled with, or the
  reason it is rejected with. The promise of the callback below is rejected only with an
  error object that a string conversion throws.
\<close>

datatype 'a settled = Fulfilled 'a | Rejected error_object

text \<open>
  The \<^verbatim>\<open>catch\<close> block of the callback: an output that carries the message, or, when the
  caught value has no string form, a promise rejected with what the conversion throws.
\<close>

definition catch_output ::
  "tool_call \<Rightarrow> segments \<Rightarrow> thrown \<Rightarrow> segments \<times> ToolOutput option settled" where
  "catch_output tool ls error =
     (case errorMessage error of
        Inr errorMessage' \<Rightarrow>
          (ls, Fulfilled (Some \<lparr> tool_call_id = call_id tool,
                                  output_text = ''Error: '' @ errorMessage' \<rparr>))
      | Inl reason \<Rightarrow> (ls, Rejected reason))"

text \<open>
  The callback that \<^verbatim>\<open>handleRunToolCalls\<close> maps over the tool calls: what it logs (the
  handler's own lines included) and how its promise is settled, \<open>Fulfilled None\<close> being
  \<^verbatim>\<open>null\<close>. A name that \<^verbatim>\<open>tools[name]\<close> finds in the prototype passes the test
  \<^verbatim>\<open>!toolConfig\<close>; the arguments are parsed, and calling \<^verbatim>\<open>toolConfig.handler\<close>, which is
  \<^verbatim>\<open>undefined\<close>, throws a \<^verbatim>\<open>TypeError\<close> (the message is the one of Node's engine).
\<close>

definition toolCall_callback ::
  "'j JSON \<Rightarrow> MonAIAgent \<Rightarrow> 'j registry \<Rightarrow> tool_call
     \<Rightarrow> segments \<times> ToolOutput option settled"
  where
  "toolCall_callback J a tls tool =
     (case get_property tls (function_name tool) of
        Undefined \<Rightarrow>
          ([[(LError, ''Tool '' @ function_name tool @ '' not found'')]], Fulfilled None)
      | Inherited \<Rightarrow>
          (case parse J (function_arguments tool) of
             Inl error \<Rightarrow> catch_output tool [[]] error
           | Inr args \<Rightarrow>
               catch_output tool [[]] (TypeError ''toolConfig.handler is not a function''))
      | Own toolConfig \<Rightarrow>
          (case parse J (function_arguments tool) of
             Inl error \<Rightarrow> catch_output tool [[]] error
           | Inr args \<Rightarrow>
               (case handler toolConfig args (walletClient a) (toolEnvConfigs a) of
                  (ls, Inr out) \<Rightarrow>
                    (ls, Fulfilled (Some \<lparr> tool_call_id = call_id tool,
                                            output_text = String_value out \<rparr>))
                | (ls, Inl error) \<Rightarrow> catch_output tool ls error)))"

text \<open>
  The loop over the settled results that fills \<^verbatim>\<open>toolOutputs\<close> and logs the rejected
  ones.
\<close>

fun collect ::
  "ToolOutput option settled list \<Rightarrow> ToolOutput list \<Rightarrow> log_entry list
     \<Rightarrow> ToolOutput list \<times> log_entry list" where
  "collect [] toolOutputs ls = (toolOutputs, ls)"
| "collect (Fulfilled (Some v) # results) toolOutputs ls = collect results (toolOutputs @ [v]) ls"
| "collect (Fulfilled None # results) toolOutputs ls = collect results toolOutputs ls"
| "collect (Rejected reason # results) toolOutputs ls =
     collect results toolOutputs (ls @ [(LError, ''Tool call failed: '' @ String_error reason)])"

text \<open>
  \<^verbatim>\<open>run.required_action?.submit_tool_outputs?.tool_calls\<close>, \<open>None\<close> when there is no
  required action.
\<close>

definition toolCalls_of :: "Run \<Rightarrow> tool_call list option" where
  "toolCalls_of run = map_option tool_calls (required_action run)"

text \<open>
  The outputs of one dispatch round and what the round logs. The callbacks are started in
  the order of the calls, and each runs until it is suspended for the first time: the first
  segments come first, in the order of the calls. The later segments follow as the handlers
  are resumed; the code leaves their order to the time the chain takes, and here they are in
  the order of the calls. \<^verbatim>\<open>Promise.allSettled\<close> keeps the order of the calls in its
  results, and the loop over them runs when all are settled.
\<close>

definition dispatch_round ::
  "'j JSON \<Rightarrow> MonAIAgent \<Rightarrow> 'j registry \<Rightarrow> tool_call list \<Rightarrow> ToolOutput list \<times> log_entry list"
  where
  "dispatch_round J a tls toolCalls =
     (let settled = map (toolCall_callback J a tls) toolCalls;
          (toolOutputs, ls) = collect (map snd settled) [] []
      in (toolOutputs,
          concat (map (\<lambda>r. first_segment (fst r)) settled)
            @ concat (map (\<lambda>r. later_segments (fst r)) settled) @ ls))"

definition handleRunToolCalls ::
  "'j JSON \<Rightarrow> MonAIAgent \<Rightarrow> Run \<Rightarrow> Thread \<Rightarrow> 'j World \<Rightarrow> (thrown + Run) \<times> 'j World" where
  "handleRunToolCalls J a run th w =
     (case toolCalls_of run of
        None \<Rightarrow> (Inr run, w)
      | Some toolCalls \<Rightarrow>
          (if length toolCalls = 0 then (Inr run, w)
           else
             (let (toolOutputs, ls) = dispatch_round J a (initTools w) toolCalls;
                  w1 = w\<lparr>logs := logs w @ ls\<rparr>
              in if length toolOutputs = 0
                 then (Inr run,
                       log LInfo (''No valid tool outputs to submit for run '' @ run_id run) w1)
                 else (runs_submitToolOutputsAndPoll (openAIClient a) (calls w1) (thread_id th)
                         (run_id run) toolOutputs,
                       issue (SubmitToolOutputsAndPoll (thread_id th) (run_id run) toolOutputs)
                         w1))))"

text \<open>
  The loop of \<^verbatim>\<open>performRun\<close>: as long as the run requires tool outputs, handle its tool
  calls. \<open>None\<close> is a loop that never ends.
\<close>

definition requires_tool_outputs :: "Run \<Rightarrow> bool" where
  "requires_tool_outputs run =
     (status run = RequiresAction \<and>
      (case required_action run of None \<Rightarrow> False | Some ra \<Rightarrow> ra_type ra = ''submit_tool_outputs''))"

partial_function (option) performRun_loop ::
  "'j JSON \<Rightarrow> MonAIAgent \<Rightarrow> Thread \<Rightarrow> Run \<Rightarrow> 'j World \<Rightarrow> ((thrown + Run) \<times> 'j World) option"
  where
  "performRun_loop J a th currentRun w =
     (if requires_tool_outputs currentRun then
        (case handleRunToolCalls J a currentRun th w of
           (Inl e, w1) \<Rightarrow> Some (Inl e, w1)
         | (Inr run', w1) \<Rightarrow> performRun_loop J a th run' w1)
      else Some (Inr currentRun, w))"

declare performRun_loop.simps [code]

definition squote :: string where
  "squote = [char_of (39 :: nat)]"

text \<open>
  Reading a property of \<^verbatim>\<open>undefined\<close> throws a \<^verbatim>\<open>TypeError\<close>; the message is the one of
  Node's engine.
\<close>

definition cannot_read_undefined :: "string \<Rightarrow> thrown" where
  "cannot_read_undefined prop =
     TypeError (''Cannot read properties of undefined (reading '' @ squote @ prop @ squote @ '')'')"

text \<open>
  After the loop: the first content block of the most recent message when the run is
  completed, the message is the assistant's and the block is text; \<open>None\<close> (\<^verbatim>\<open>null\<close>)
  otherwise.
\<close>

definition performRun_result ::
  "'j JSON \<Rightarrow> MonAIAgent \<Rightarrow> Thread \<Rightarrow> Run \<Rightarrow> 'j World
     \<Rightarrow> (thrown + content_block option) \<times> 'j World" where
  "performRun_result J a th currentRun w =
     (let w1 = log LInfo (stringify J currentRun) w in
      if status currentRun = Completed then
        (let w2 = issue (MessagesList (thread_id th)) w1 in
         case messages_list (openAIClient a) (calls w1) (thread_id th) of
           Inl e \<Rightarrow> (Inl e, w2)
         | Inr messages \<Rightarrow>
             (case messages of
                [] \<Rightarrow> (Inl (cannot_read_undefined ''role''), w2)
              | lastMessage # older \<Rightarrow>
                  (if role lastMessage = ''assistant'' then
                     (case content lastMessage of
                        [] \<Rightarrow> (Inl (cannot_read_undefined ''type''), w2)
                      | c # cs \<Rightarrow>
                          (if content_type c = ''text'' then (Inr (Some c), w2)
                           else (Inr None, w2)))
                   else (Inr None, w2))))
      else (Inr None, w1))"

definition performRun ::
  "'j JSON \<Rightarrow> MonAIAgent \<Rightarrow> Run \<Rightarrow> Thread \<Rightarrow> 'j World
     \<Rightarrow> ((thrown + content_block option) \<times> 'j World) option" where
  "performRun J a run th w =
     (case performRun_loop J a th run w of
        None \<Rightarrow> None
      | Some (Inl e, w1) \<Rightarrow> Some (Inl e, w1)
      | Some (Inr currentRun, w1) \<Rightarrow> Some (performRun_result J a th currentRun w1))"

text \<open>
  \<^verbatim>\<open>sendMessage\<close>: the answer text or the rejection, the session and the world after it;
  \<open>None\<close> when one of the two loops never ends.
\<close>

definition sendMessage ::
  "'j JSON \<Rightarrow> MonAIAgent \<Rightarrow> string \<Rightarrow> 'j World
     \<Rightarrow> ((thrown + string) \<times> MonAIAgent \<times> 'j World) option" where
  "sendMessage J a msg w =
     (case (if \<not> isInitialized a then initialize a w else (Inr (), a, w)) of
        (Inl e, a1, w1) \<Rightarrow> Some (Inl e, a1, w1)
      | (Inr u, a1, w1) \<Rightarrow>
          (case (assistant a1, thread a1) of
             (Some asst, Some th) \<Rightarrow>
               (let w2 = log LInfo (''Sending message: '' @ msg @ '' for wallet ''
                            @ (case account_address (walletClient a1) of
                                 None \<Rightarrow> ''undefined'' | Some address \<Rightarrow> address)) w1;
                    w3 = issue (MessagesCreate (thread_id th) ''user'' msg) w2
                in case messages_create (openAIClient a1) (calls w2) (thread_id th) ''user'' msg of
                     Inl e \<Rightarrow> Some (Inl e, a1, w3)
                   | Inr v \<Rightarrow>
                       (case createRun a1 w3 of
                          None \<Rightarrow> None
                        | Some (Inl e, w4) \<Rightarrow> Some (Inl e, a1, w4)
                        | Some (Inr run, w4) \<Rightarrow>
                            (case performRun J a1 run th w4 of
                               None \<Rightarrow> None
                             | Some (Inl e, w5) \<Rightarrow> Some (Inl e, a1, w5)
                             | Some (Inr (Some (TextContent t)), w5) \<Rightarrow> Some (Inr t, a1, w5)
                             | Some (Inr result, w5) \<Rightarrow>
                                 Some (Inl (Error ''Unexpected response format''), a1,
                                       log LInfo ''null'' w5))))
           | _ \<Rightarrow> Some (Inl (Error ''MonAIAgent not initialized properly''), a1, w1)))"

section \<open>Notions used in the statements\<close>

text \<open>
  A tool call is registered when the registry has an entry under its tool name. It names
  an inherited property when it is not registered and its tool name is the name of a
  property of \<^verbatim>\<open>Object.prototype\<close>.
\<close>

definition registered :: "'j registry \<Rightarrow> tool_call \<Rightarrow> bool" where
  "registered tls t = (map_of tls (function_name t) \<noteq> None)"

definition inherited :: "'j registry \<Rightarrow> tool_call \<Rightarrow> bool" where
  "inherited tls t = (\<not> registered tls t \<and> function_name t \<in> set Object_prototype_names)"

text \<open>
  What is thrown in the \<^verbatim>\<open>try\<close> block of the callback for a registered call: by
  \<^verbatim>\<open>JSON.parse\<close>, or else by the handler. The call is rejected when that value has no
  string form.
\<close>

definition no_string_form :: "thrown \<Rightarrow> bool" where
  "no_string_form e = (case e of ThrownOpaque n m \<Rightarrow> True | _ \<Rightarrow> False)"

definition thrown_in_try ::
  "'j JSON \<Rightarrow> MonAIAgent \<Rightarrow> 'j registry \<Rightarrow> tool_call \<Rightarrow> thrown option" where
  "thrown_in_try J a tls t =
     (case map_of tls (function_name t) of
        None \<Rightarrow> None
      | Some toolConfig \<Rightarrow>
          (case parse J (function_arguments t) of
             Inl e \<Rightarrow> Some e
           | Inr args \<Rightarrow>
               (case snd (handler toolConfig args (walletClient a) (toolEnvConfigs a)) of
                  Inl e \<Rightarrow> Some e
                | Inr v \<Rightarrow> None)))"

definition rejected :: "'j JSON \<Rightarrow> MonAIAgent \<Rightarrow> 'j registry \<Rightarrow> tool_call \<Rightarrow> bool" where
  "rejected J a tls t =
     (case thrown_in_try J a tls t of None \<Rightarrow> False | Some e \<Rightarrow> no_string_form e)"

text \<open>
  The remote operations issued between two worlds, and the ones that concern threads.
\<close>

definition issued_during :: "'j World \<Rightarrow> 'j World \<Rightarrow> remote_op list" where
  "issued_during w w' = drop (length (calls w)) (calls w')"

definition is_thread_op :: "remote_op \<Rightarrow> bool" where
  "is_thread_op op = (case op of ThreadsCreate \<Rightarrow> True | ThreadsRetrieve t \<Rightarrow> True | _ \<Rightarrow> False)"

text \<open>
  A run whose dispatch round collects no output: it has no tool calls, or none of them
  yields an output.
\<close>

definition no_outputs :: "'j JSON \<Rightarrow> MonAIAgent \<Rightarrow> 'j registry \<Rightarrow> Run \<Rightarrow> bool" where
  "no_outputs J a tls run =
     (case toolCalls_of run of None \<Rightarrow> True | Some toolCalls \<Rightarrow> fst (dispatch_round J a tls toolCalls) = [])"

text \<open>
  A run that is still queued or in progress; the polls that retrieve a list of runs one
  after the other; and a runtime that follows a script: after the history \<open>h\<close>, polling
  the run \<open>r0\<close> gives the first run of \<open>ps\<close>, polling that one gives the second, and
  so on.
\<close>

definition transient :: "Run \<Rightarrow> bool" where
  "transient run = (status run = InProgress \<or> status run = Queued)"

definition polls_of :: "MonAIAgent \<Rightarrow> Run list \<Rightarrow> remote_op list" where
  "polls_of a runs = map (\<lambda>r. RunsRetrieve (threadID a) (run_id r)) runs"

definition follows_script :: "MonAIAgent \<Rightarrow> remote_op list \<Rightarrow> Run \<Rightarrow> Run list \<Rightarrow> bool" where
  "follows_script a h r0 ps =
     (\<forall>i < length ps.
        runs_retrieve (openAIClient a) (h @ polls_of a (take i (r0 # ps))) (threadID a)
          (run_id ((r0 # ps) ! i)) = Inr (ps ! i))"

text \<open>
  The output for a \<^verbatim>\<open>get_token_balance\<close> call that names the token \<^verbatim>\<open>unknown\<close>: the text
  the handler's \<^verbatim>\<open>catch\<close> block builds, and the text of the inner error alone.
\<close>

definition unknown_token_output :: string where
  "unknown_token_output =
     ''Error: Failed to get token balance: Error: Token '' @ dquote @ ''unknown'' @ dquote
       @ '' not found. Available tokens: WMON, MONAI''"

definition claimed_unknown_token_output :: string where
  "claimed_unknown_token_output =
     ''Error: Token '' @ dquote @ ''unknown'' @ dquote
       @ '' not found. Available tokens: WMON, MONAI''"

text \<open>
  The output that a settled result contributes to the round, and the line that the loop
  over the results logs for it.
\<close>

definition output_of :: "'a option settled \<Rightarrow> 'a option" where
  "output_of r = (case r of Fulfilled (Some v) \<Rightarrow> Some v | _ \<Rightarrow> None)"

definition rejection_log :: "'a settled \<Rightarrow> log_entry list" where
  "rejection_log r =
     (case r of Rejected reason \<Rightarrow> [(LError, ''Tool call failed: '' @ String_error reason)]
      | _ \<Rightarrow> [])"

section \<open>Concrete scenarios\<close>

text \<open>
  A runtime that answers from a script: the outcome of retrieving the assistant, the run
  that \<^verbatim>\<open>runs.create\<close> gives, the runs that the successive polls give, and the messages
  of the thread.
\<close>

definition is_RunsRetrieve :: "remote_op \<Rightarrow> bool" where
  "is_RunsRetrieve op = (case op of RunsRetrieve t r \<Rightarrow> True | _ \<Rightarrow> False)"

definition scripted_client ::
  "(thrown + Assistant) \<Rightarrow> Run \<Rightarrow> Run list \<Rightarrow> Message list \<Rightarrow> OpenAI" where
  "scripted_client retrieved firstRun polls messages =
     \<lparr> assistants_create = (\<lambda>h params. Inr \<lparr>assistant_id = ''asst_new''\<rparr>),
       assistants_retrieve = (\<lambda>h i. retrieved),
       threads_create = (\<lambda>h. Inr \<lparr>thread_id = ''thread_new''\<rparr>),
       threads_retrieve = (\<lambda>h i. Inr \<lparr>thread_id = i\<rparr>),
       messages_create = (\<lambda>h t r c. Inr ()),
       runs_create = (\<lambda>h t a. Inr firstRun),
       runs_retrieve = (\<lambda>h t r.
          (let n = length (filter is_RunsRetrieve h)
           in if n < length polls then Inr (polls ! n) else Inl (Error ''No run found''))),
       runs_submitToolOutputsAndPoll = (\<lambda>h t r outs.
          Inr \<lparr>run_id = r, status = Completed, required_action = None\<rparr>),
       messages_list = (\<lambda>h t. Inr messages) \<rparr>"

text \<open>
  A parser that knows the argument texts of the scenarios, a chain on which every balance
  is 1.5, and a wallet with an account.
\<close>

definition tokenName_payload :: "string \<Rightarrow> string" where
  "tokenName_payload name =
     ''{'' @ dquote @ ''tokenName'' @ dquote @ '':'' @ dquote @ name @ dquote @ ''}''"

definition demo_JSON :: "GetTokenBalanceArgs JSON" where
  "demo_JSON =
     \<lparr> parse = (\<lambda>s.
          if s = ''{}'' then Inr \<lparr>wallet = None, tokenName = None\<rparr>
          else if s = tokenName_payload ''unknown''
          then Inr \<lparr>wallet = None, tokenName = Some ''unknown''\<rparr>
          else if s = tokenName_payload ''wmon''
          then Inr \<lparr>wallet = None, tokenName = Some ''wmon''\<rparr>
          else Inl (ErrorObj ''SyntaxError'' ''Unexpected end of JSON input'')),
       stringify = (\<lambda>run. run_id run) \<rparr>"

definition demo_chain :: Chain where
  "demo_chain =
     \<lparr> readContract_balanceOf = (\<lambda>token address. Inr 1500000000000000000),
       fetchTokenDecimalsAndFormatAmount = (\<lambda>token amount. Inr ''1.5''),
       getBalance_formatEther = (\<lambda>address. Inr ''1.5'') \<rparr>"

definition demo_wallet :: WalletClient where
  "demo_wallet = \<lparr>account_address = Some ''0xABC''\<rparr>"

text \<open>
  A configuration, the session the constructor makes of it, a session that is already
  initialized, and the world at the start.
\<close>

definition demo_config :: "OpenAI \<Rightarrow> string option \<Rightarrow> MonAIAgentConfig" where
  "demo_config client tid =
     \<lparr> cfg_walletClient = Some demo_wallet,
       cfg_openAIClient = client,
       cfg_toolEnvConfigs = None,
       cfg_prompts = None,
       cfg_assistantId = Some ''asst_1'',
       cfg_threadId = tid \<rparr>"

definition demo_session :: "OpenAI \<Rightarrow> string \<Rightarrow> MonAIAgent" where
  "demo_session client tid =
     \<lparr> openAIClient = client, assistant = None, thread = None, threadID = tid,
       walletClient = demo_wallet, toolEnvConfigs = [], isInitialized = False,
       assistantId = ''asst_1'', prompts = [] \<rparr>"

definition demo_ready :: "OpenAI \<Rightarrow> MonAIAgent" where
  "demo_ready client =
     (demo_session client ''thread_1'')
       \<lparr> assistant := Some \<lparr>assistant_id = ''asst_1''\<rparr>,
         thread := Some \<lparr>thread_id = ''thread_1''\<rparr>,
         isInitialized := True \<rparr>"

definition demo_world :: "GetTokenBalanceArgs World" where
  "demo_world = \<lparr>calls = [], logs = [], toolRegistry = toolRegistry0 demo_chain\<rparr>"

text \<open>
  Runs and runtimes: one whose run goes from queued over in progress to completed with an
  answer, one whose run asks for a tool that is not registered, one whose completed run has
  no message at all.
\<close>

definition run_with :: "run_status \<Rightarrow> tool_call list \<Rightarrow> Run" where
  "run_with s toolCalls =
     \<lparr> run_id = ''run_1'', status = s,
       required_action =
         (if s = RequiresAction
          then Some \<lparr>ra_type = ''submit_tool_outputs'', tool_calls = toolCalls\<rparr> else None) \<rparr>"

definition client_ok :: OpenAI where
  "client_ok = scripted_client (Inr \<lparr>assistant_id = ''asst_1''\<rparr>) (run_with Queued [])
     [run_with InProgress [], run_with Completed []]
     [\<lparr>role = ''assistant'', content = [TextContent ''Your balance is 1.5'']\<rparr>,
      \<lparr>role = ''user'', content = [TextContent ''balance?'']\<rparr>]"

text \<open>
  Tool calls: for a token that does not exist, for a tool that does not exist, for the
  native balance, for a tool whose handler throws \<^verbatim>\<open>Object.create(null)\<close>, for the name
  \<^verbatim>\<open>constructor\<close>, and for a tool whose handler always throws an error.
\<close>

definition unknown_token_call :: tool_call where
  "unknown_token_call =
     \<lparr> call_id = ''call_1'', function_name = ''get_token_balance'',
       function_arguments = tokenName_payload ''unknown'' \<rparr>"

definition unknown_tool_call :: tool_call where
  "unknown_tool_call =
     \<lparr> call_id = ''call_0'', function_name = ''swap'', function_arguments = ''{}'' \<rparr>"

definition balance_call :: tool_call where
  "balance_call =
     \<lparr> call_id = ''call_2'', function_name = ''get_balance'', function_arguments = ''{}'' \<rparr>"


definition opaque_tool :: "GetTokenBalanceArgs Tool" where
  "opaque_tool =
     \<lparr> tool_def = \<lparr>fn_name = ''opaque'', fn_description = ''Throws Object.create(null)'',
                    fn_required = []\<rparr>,
       handler = (\<lambda>args wc cfg.
          ([[]], Inl (ThrownOpaque ''TypeError'' ''Cannot convert object to primitive value''))) \<rparr>"

definition opaque_call :: tool_call where
  "opaque_call = \<lparr> call_id = ''call_3'', function_name = ''opaque'', function_arguments = ''{}'' \<rparr>"

definition constructor_call :: tool_call where
  "constructor_call =
     \<lparr> call_id = ''call_4'', function_name = ''constructor'', function_arguments = ''{}'' \<rparr>"



definition opaque_world :: "GetTokenBalanceArgs World" where
  "opaque_world =
     demo_world\<lparr>toolRegistry := registerTool ''opaque'' opaque_tool (toolRegistry demo_world)\<rparr>"

definition client_stuck :: OpenAI where
  "client_stuck = scripted_client (Inr \<lparr>assistant_id = ''asst_1''\<rparr>)
     (run_with RequiresAction [unknown_tool_call]) [] []"

definition client_empty :: OpenAI where
  "client_empty = scripted_client (Inr \<lparr>assistant_id = ''asst_1''\<rparr>)
     (run_with Completed []) [] []"

section \<open>Basic facts\<close>

subsection \<open>The world\<close>

lemma calls_log [simp]: "calls (log l m w) = calls w" by (simp add: log_def)

lemma toolRegistry_log [simp]: "toolRegistry (log l m w) = toolRegistry w" by (simp add: log_def)

lemma calls_issue [simp]: "calls (issue op w) = calls w @ [op]" by (simp add: issue_def)

lemma toolRegistry_issue [simp]: "toolRegistry (issue op w) = toolRegistry w" by (simp add: issue_def)

lemma logs_issue [simp]: "logs (issue op w) = logs w" by (simp add: issue_def)

subsection \<open>The two loops, unfolded once\<close>

lemma createRun_poll_done:
  "status run \<noteq> InProgress \<Longrightarrow> status run \<noteq> Queued \<Longrightarrow> createRun_poll a run w = Some (Inr run, w)"
  by (subst createRun_poll.simps) simp

lemma createRun_poll_step:
  "status run = InProgress \<or> status run = Queued \<Longrightarrow>
   runs_retrieve (openAIClient a) (calls w) (threadID a) (run_id run) = Inr run' \<Longrightarrow>
   createRun_poll a run w = createRun_poll a run' (issue (RunsRetrieve (threadID a) (run_id run)) w)"
  by (subst createRun_poll.simps) simp

lemma performRun_loop_done:
  "\<not> requires_tool_outputs run \<Longrightarrow> performRun_loop J a th run w = Some (Inr run, w)"
  by (subst performRun_loop.simps) simp

lemma follows_script_Cons:
  assumes "follows_script a h r0 (p # ps)"
  shows "runs_retrieve (openAIClient a) h (threadID a) (run_id r0) = Inr p"
    and "follows_script a (h @ [RunsRetrieve (threadID a) (run_id r0)]) p ps"
proof -
  from assms have "runs_retrieve (openAIClient a) (h @ polls_of a (take 0 (r0 # p # ps)))
       (threadID a) (run_id ((r0 # p # ps) ! 0)) = Inr ((p # ps) ! 0)"
    unfolding follows_script_def by blast
  then show "runs_retrieve (openAIClient a) h (threadID a) (run_id r0) = Inr p"
    by (simp add: polls_of_def)
  show "follows_script a (h @ [RunsRetrieve (threadID a) (run_id r0)]) p ps"
    unfolding follows_script_def
  proof (intro allI impI)
    fix i assume "i < length ps"
    then have "Suc i < length (p # ps)" by simp
    with assms have "runs_retrieve (openAIClient a)
        (h @ polls_of a (take (Suc i) (r0 # p # ps))) (threadID a)
        (run_id ((r0 # p # ps) ! Suc i)) = Inr ((p # ps) ! Suc i)"
      unfolding follows_script_def by blast
    then show "runs_retrieve (openAIClient a)
        ((h @ [RunsRetrieve (threadID a) (run_id r0)]) @ polls_of a (take i (p # ps)))
        (threadID a) (run_id ((p # ps) ! i)) = Inr (ps ! i)"
      by (simp add: polls_of_def)
  qed
qed

lemma createRun_poll_script:
  assumes "follows_script a (calls w) r0 ps"
    and "\<forall>r \<in> set (butlast (r0 # ps)). transient r"
    and "\<not> transient (last (r0 # ps))"
  shows "\<exists>w'. createRun_poll a r0 w = Some (Inr (last (r0 # ps)), w')
           \<and> calls w' = calls w @ polls_of a (butlast (r0 # ps))
           \<and> logs w' = logs w \<and> toolRegistry w' = toolRegistry w"
  using assms
proof (induction ps arbitrary: r0 w)
  case Nil
  then show ?case
    by (simp add: transient_def createRun_poll_done polls_of_def)
next
  case (Cons p ps)
  let ?w1 = "issue (RunsRetrieve (threadID a) (run_id r0)) w"
  from Cons.prems(2) have tr: "transient r0" by simp
  from follows_script_Cons [OF Cons.prems(1)]
  have r: "runs_retrieve (openAIClient a) (calls w) (threadID a) (run_id r0) = Inr p"
    and f: "follows_script a (calls ?w1) p ps"
    by (simp_all add: issue_def)
  have step: "createRun_poll a r0 w = createRun_poll a p ?w1"
    using tr r by (simp add: transient_def createRun_poll_step)
  have "\<exists>w'. createRun_poll a p ?w1 = Some (Inr (last (p # ps)), w')
           \<and> calls w' = calls ?w1 @ polls_of a (butlast (p # ps))
           \<and> logs w' = logs ?w1 \<and> toolRegistry w' = toolRegistry ?w1"
    using Cons.prems(2,3) by (intro Cons.IH [OF f]) simp_all
  then show ?case
    using step by (auto simp: polls_of_def issue_def)
qed

subsection \<open>A dispatch round\<close>

lemma output_of_simps [simp]:
  "output_of (Fulfilled (Some v)) = Some v"
  "output_of (Fulfilled None) = None"
  "output_of (Rejected reason) = None"
  by (simp_all add: output_of_def)

lemma rejection_log_simps [simp]:
  "rejection_log (Fulfilled x) = []"
  "rejection_log (Rejected reason) = [(LError, ''Tool call failed: '' @ String_error reason)]"
  by (simp_all add: rejection_log_def)

lemma collect_settled:
  "collect rs outs ls
     = (outs @ List.map_filter output_of rs, ls @ concat (map rejection_log rs))"
proof (induction rs outs ls rule: collect.induct)
  case (1 toolOutputs ls)
  show ?case by (simp add: List.map_filter_simps)
next
  case (2 v results toolOutputs ls)
  then show ?case by (simp add: List.map_filter_simps)
next
  case (3 results toolOutputs ls)
  then show ?case by (simp add: List.map_filter_simps)
next
  case (4 reason results toolOutputs ls)
  then show ?case by (simp add: List.map_filter_simps)
qed

lemma dispatch_round_outputs:
  "fst (dispatch_round J a tls toolCalls)
     = List.map_filter (\<lambda>t. output_of (snd (toolCall_callback J a tls t))) toolCalls"
  by (simp add: dispatch_round_def Let_def comp_def collect_settled List.map_filter_def
        filter_map)

lemma dispatch_round_logs:
  "snd (dispatch_round J a tls toolCalls)
     = concat (map (\<lambda>t. first_segment (fst (toolCall_callback J a tls t))) toolCalls)
       @ concat (map (\<lambda>t. later_segments (fst (toolCall_callback J a tls t))) toolCalls)
       @ concat (map (\<lambda>t. rejection_log (snd (toolCall_callback J a tls t))) toolCalls)"
  by (simp add: dispatch_round_def Let_def comp_def collect_settled)


lemma dispatch_round_single:
  "fst (dispatch_round J a tls [t])
     = (case output_of (snd (toolCall_callback J a tls t)) of None \<Rightarrow> [] | Some v \<Rightarrow> [v])"
  by (simp add: dispatch_round_outputs List.map_filter_simps split: option.splits)


lemma get_property_registered:
  "map_of tls (function_name t) = Some toolConfig \<Longrightarrow>
     get_property tls (function_name t) = Own toolConfig"
  by (simp add: get_property_def)

lemma get_property_absent:
  "\<not> registered tls t \<Longrightarrow> \<not> inherited tls t \<Longrightarrow> get_property tls (function_name t) = Undefined"
  by (simp add: get_property_def registered_def inherited_def)

lemma catch_output_snd:
  "snd (catch_output t ls e)
     = (case errorMessage e of
          Inr m \<Rightarrow> Fulfilled (Some \<lparr>tool_call_id = call_id t, output_text = ''Error: '' @ m\<rparr>)
        | Inl reason \<Rightarrow> Rejected reason)"
  by (simp add: catch_output_def split: sum.splits)

lemma catch_output_fst: "fst (catch_output t ls e) = ls"
  by (simp add: catch_output_def split: sum.splits)

lemma errorMessage_no_string_form:
  "(\<exists>reason. errorMessage e = Inl reason) = no_string_form e"
  by (cases e) (simp_all add: errorMessage_def no_string_form_def)

lemma callback_absent:
  "\<not> registered tls t \<Longrightarrow> \<not> inherited tls t \<Longrightarrow>
     toolCall_callback J a tls t
       = ([[(LError, ''Tool '' @ function_name t @ '' not found'')]], Fulfilled None)"
  by (simp add: toolCall_callback_def get_property_absent)

lemma callback_registered:
  assumes "registered tls t"
  shows "snd (toolCall_callback J a tls t)
           = (case thrown_in_try J a tls t of
                Some e \<Rightarrow>
                  (case errorMessage e of
                     Inr m \<Rightarrow> Fulfilled (Some \<lparr>tool_call_id = call_id t,
                                                 output_text = ''Error: '' @ m\<rparr>)
                   | Inl reason \<Rightarrow> Rejected reason)
              | None \<Rightarrow>
                  Fulfilled (Some \<lparr>tool_call_id = call_id t,
                     output_text = String_value
                       (case snd (handler (the (map_of tls (function_name t)))
                                    (case parse J (function_arguments t) of Inr args \<Rightarrow> args)
                                    (walletClient a) (toolEnvConfigs a)) of Inr v \<Rightarrow> v)\<rparr>))"
proof -
  from assms obtain toolConfig where m: "map_of tls (function_name t) = Some toolConfig"
    by (auto simp: registered_def)
  show ?thesis
  proof (cases "parse J (function_arguments t)")
    case (Inl e)
    then show ?thesis
      using m by (simp add: toolCall_callback_def get_property_registered thrown_in_try_def catch_output_snd)
  next
    case (Inr args)
    obtain ls r where h: "handler toolConfig args (walletClient a) (toolEnvConfigs a) = (ls, r)"
      by (cases "handler toolConfig args (walletClient a) (toolEnvConfigs a)")
    show ?thesis
      using m Inr h
      by (cases r) (simp_all add: toolCall_callback_def get_property_registered thrown_in_try_def catch_output_snd)
  qed
qed

lemma callback_rejected:
  assumes "rejected J a tls t"
  shows "\<exists>reason. snd (toolCall_callback J a tls t) = Rejected reason"
proof -
  from assms obtain e where e: "thrown_in_try J a tls t = Some e" "no_string_form e"
    by (auto simp: rejected_def split: option.splits)
  then have "registered tls t"
    by (auto simp: thrown_in_try_def registered_def split: option.splits)
  from callback_registered [OF this, of J a] e errorMessage_no_string_form [of e]
  show ?thesis
    by auto
qed

lemma callback_output_iff:
  assumes "\<not> inherited tls t"
  shows "(output_of (snd (toolCall_callback J a tls t)) = None)
           = (\<not> registered tls t \<or> rejected J a tls t)"
proof (cases "registered tls t")
  case False
  then have "\<not> rejected J a tls t"
    by (simp add: rejected_def thrown_in_try_def registered_def)
  then show ?thesis
    using False assms by (simp add: callback_absent)
next
  case True
  show ?thesis
  proof (cases "thrown_in_try J a tls t")
    case None
    then show ?thesis
      using True callback_registered [OF True, of J a] by (simp add: rejected_def)
  next
    case (Some e)
    then show ?thesis
      using True callback_registered [OF True, of J a] errorMessage_no_string_form [of e]
      by (cases "errorMessage e") (auto simp: rejected_def)
  qed
qed

lemma callback_id:
  "output_of (snd (toolCall_callback J a tls t)) = Some v \<Longrightarrow> tool_call_id v = call_id t"
  by (auto simp: toolCall_callback_def catch_output_def
      split: property.splits sum.splits prod.splits)

lemma dispatch_round_filter:
  "fst (dispatch_round J a tls toolCalls)
     = map (\<lambda>t. the (output_of (snd (toolCall_callback J a tls t))))
         (filter (\<lambda>t. output_of (snd (toolCall_callback J a tls t)) \<noteq> None) toolCalls)"
  by (simp add: dispatch_round_outputs List.map_filter_def comp_def)

lemma handleRunToolCalls_submits:
  assumes "toolCalls_of run = Some toolCalls"
    and "fst (dispatch_round J a (initTools w) toolCalls) \<noteq> []"
  shows "handleRunToolCalls J a run th w
           = (runs_submitToolOutputsAndPoll (openAIClient a) (calls w) (thread_id th) (run_id run)
                (fst (dispatch_round J a (initTools w) toolCalls)),
              issue (SubmitToolOutputsAndPoll (thread_id th) (run_id run)
                       (fst (dispatch_round J a (initTools w) toolCalls)))
                (w\<lparr>logs := logs w @ snd (dispatch_round J a (initTools w) toolCalls)\<rparr>))"
proof -
  obtain outs ls where d: "dispatch_round J a (initTools w) toolCalls = (outs, ls)"
    by (cases "dispatch_round J a (initTools w) toolCalls")
  have "toolCalls \<noteq> []"
    using assms(2) by (auto simp: dispatch_round_def)
  then show ?thesis
    using assms d by (simp add: handleRunToolCalls_def)
qed

lemma handleRunToolCalls_no_outputs:
  assumes "no_outputs J a (toolRegistry w) run"
  shows "\<exists>w'. handleRunToolCalls J a run th w = (Inr run, w') \<and> calls w' = calls w
               \<and> toolRegistry w' = toolRegistry w"
  using assms
  by (auto simp: no_outputs_def handleRunToolCalls_def initTools_def Let_def
           split: option.splits prod.splits)

lemma registered_demo:
  "\<not> registered (toolRegistry0 demo_chain) unknown_tool_call"
  "registered (toolRegistry0 demo_chain) balance_call"
  by (simp_all add: registered_def toolRegistry0_def unknown_tool_call_def balance_call_def)

lemma balance_output:
  assumes "map_of tls ''get_balance'' = Some (getBalanceTool demo_chain)"
  shows "snd (toolCall_callback demo_JSON (demo_ready client) tls balance_call)
           = Fulfilled (Some \<lparr>tool_call_id = ''call_2'', output_text = ''1.5''\<rparr>)"
  using assms
  by (simp add: toolCall_callback_def get_property_def balance_call_def
        demo_JSON_def getBalanceTool_def getBalance_handler_def demo_ready_def demo_session_def
        demo_wallet_def or_else_def demo_chain_def)

lemma opaque_registry:
  "initTools opaque_world = toolRegistry0 demo_chain @ [(''opaque'', opaque_tool)]"
  by (simp add: opaque_world_def demo_world_def initTools_def registerTool_def toolRegistry0_def)

lemma opaque_callback:
  "toolCall_callback demo_JSON (demo_ready client) (initTools opaque_world) opaque_call
     = ([[]], Rejected no_primitive_value)"
  by (simp add: toolCall_callback_def get_property_def opaque_registry toolRegistry0_def
        opaque_call_def demo_JSON_def opaque_tool_def catch_output_def errorMessage_def
        no_primitive_value_def)

lemma constructor_callback:
  "toolCall_callback demo_JSON (demo_ready client) (toolRegistry0 demo_chain) constructor_call
     = ([[]], Fulfilled (Some \<lparr>tool_call_id = ''call_4'',
                                  output_text = ''Error: toolConfig.handler is not a function''\<rparr>))"
  by (simp add: toolCall_callback_def get_property_def toolRegistry0_def constructor_call_def
        Object_prototype_names_def demo_JSON_def catch_output_def errorMessage_def TypeError_def)

lemma handleRunToolCalls_round:
  assumes "toolCalls_of run = Some toolCalls" and "toolCalls \<noteq> []"
  shows "handleRunToolCalls J a run th w
           = (if fst (dispatch_round J a (initTools w) toolCalls) = []
              then (Inr run,
                    log LInfo (''No valid tool outputs to submit for run '' @ run_id run)
                      (w\<lparr>logs := logs w @ snd (dispatch_round J a (initTools w) toolCalls)\<rparr>))
              else (runs_submitToolOutputsAndPoll (openAIClient a) (calls w) (thread_id th)
                      (run_id run) (fst (dispatch_round J a (initTools w) toolCalls)),
                    issue (SubmitToolOutputsAndPoll (thread_id th) (run_id run)
                             (fst (dispatch_round J a (initTools w) toolCalls)))
                      (w\<lparr>logs := logs w @ snd (dispatch_round J a (initTools w) toolCalls)\<rparr>)))"
proof -
  obtain outs ls where d: "dispatch_round J a (initTools w) toolCalls = (outs, ls)"
    by (cases "dispatch_round J a (initTools w) toolCalls")
  show ?thesis
    using assms d by (simp add: handleRunToolCalls_def)
qed


subsection \<open>The loop of performRun on a round without outputs\<close>

lemma performRun_loop_stuck_aux:
  assumes "performRun_loop J a th run w = Some y"
  shows "\<not> (requires_tool_outputs run \<and> no_outputs J a (toolRegistry w) run)"
proof (rule performRun_loop.raw_induct
         [where P = "\<lambda>J a th run w y. \<not> (requires_tool_outputs run \<and> no_outputs J a (toolRegistry w) run)",
          OF _ assms])
  fix loop :: "'a JSON \<Rightarrow> MonAIAgent \<Rightarrow> Thread \<Rightarrow> Run \<Rightarrow> 'a World \<Rightarrow> ((thrown + Run) \<times> 'a World) option"
  fix J a th run w y
  assume IH: "\<And>J a th run w y. loop J a th run w = Some y \<Longrightarrow>
                \<not> (requires_tool_outputs run \<and> no_outputs J a (toolRegistry w) run)"
    and eq: "(if requires_tool_outputs run
              then case handleRunToolCalls J a run th w of
                     (Inl e, w1) \<Rightarrow> Some (Inl e, w1)
                   | (Inr run', w1) \<Rightarrow> loop J a th run' w1
              else Some (Inr run, w)) = Some y"
  show "\<not> (requires_tool_outputs run \<and> no_outputs J a (toolRegistry w) run)"
  proof
    assume st: "requires_tool_outputs run \<and> no_outputs J a (toolRegistry w) run"
    then obtain w' where h: "handleRunToolCalls J a run th w = (Inr run, w')"
      "toolRegistry w' = toolRegistry w"
      using handleRunToolCalls_no_outputs by blast
    with eq st have "loop J a th run w' = Some y" by simp
    from IH [OF this] st h(2) show False by simp
  qed
qed

subsection \<open>Initialization\<close>

lemma initialize_sets_flag:
  "initialize a w = (Inr u, a1, w1) \<Longrightarrow> isInitialized a1"
  by (auto simp: initialize_def split: if_splits prod.splits sum.splits)

lemma initialize_assistant_calls:
  "initialize_assistant a w = (r, a1, w1) \<Longrightarrow>
     \<exists>ops. calls w1 = calls w @ ops \<and> filter is_thread_op ops = []"
  by (auto simp: initialize_assistant_def retrieveAssistant_def createAssistant_def Let_def is_thread_op_def
      split: if_splits prod.splits sum.splits)

lemma initialize_assistant_frame:
  "initialize_assistant a w = (r, a1, w1) \<Longrightarrow> threadID a1 = threadID a \<and> openAIClient a1 = openAIClient a"
  by (auto simp: initialize_assistant_def retrieveAssistant_def createAssistant_def Let_def
      split: if_splits prod.splits sum.splits)

lemma initialize_thread_calls:
  "calls (snd (snd (initialize_thread a w)))
     = calls w @ [if threadID a = [] then ThreadsCreate else ThreadsRetrieve (threadID a)]"
  by (auto simp: initialize_thread_def createThread_def retrieveThread_def falsy_def Let_def
      split: if_splits prod.splits sum.splits)

lemma initialize_thread_frame:
  "initialize_thread a w = (r, a1, w1) \<Longrightarrow> threadID a1 = threadID a"
  by (auto simp: initialize_thread_def split: if_splits prod.splits sum.splits)

lemma initialize_keeps_threadID:
  "threadID (fst (snd (initialize a w))) = threadID a"
proof (cases "isInitialized a")
  case True
  then show ?thesis by (simp add: initialize_def)
next
  case False
  obtain r a1 w1 where s1: "initialize_assistant a w = (r, a1, w1)"
    by (cases "initialize_assistant a w")
  obtain r' a2 w2 where s2: "initialize_thread a1 w1 = (r', a2, w2)"
    by (cases "initialize_thread a1 w1")
  from s1 have t1: "threadID a1 = threadID a" using initialize_assistant_frame by blast
  from s2 have t2: "threadID a2 = threadID a1" using initialize_thread_frame by blast
  show ?thesis
    using False s1 s2 t1 t2 by (cases r; cases r') (simp_all add: initialize_def)
qed

lemma isInitialized_initialize:
  "isInitialized a \<Longrightarrow> isInitialized (fst (snd (initialize a w)))"
  by (simp add: initialize_def)

lemma isInitialized_sendMessage:
  assumes "isInitialized a" and "sendMessage J a msg w = Some (r, a', w')"
  shows "a' = a"
proof (cases "assistant a")
  case None
  then show ?thesis using assms by (simp add: sendMessage_def)
next
  case (Some asst)
  show ?thesis
  proof (cases "thread a")
    case None
    then show ?thesis using assms Some by (simp add: sendMessage_def)
  next
    case th: (Some th)
    show ?thesis
      using assms Some th
      by (simp add: sendMessage_def Let_def
            split: option.splits prod.splits sum.splits content_block.splits)
  qed
qed

subsection \<open>Token names\<close>

lemma toLowerCase_keys:
  "toLowerCase ''WMON'' = ''wmon''" "toLowerCase ''MONAI'' = ''monai''"
  by code_simp+

lemma toLowerCase_Nil_iff: "(toLowerCase s = t) \<Longrightarrow> (s = []) = (t = [])"
  by (auto simp: toLowerCase_def)

lemma findTokenName_match:
  assumes "(key, tokenAddress) \<in> set TOKEN" and "toLowerCase name = toLowerCase key"
  shows "findTokenName name = Some key \<and> map_of TOKEN key = Some tokenAddress \<and> name \<noteq> []"
  using assms toLowerCase_Nil_iff [of name "toLowerCase key"]
  by (auto simp: TOKEN_def findTokenName_def toLowerCase_keys)

lemma findTokenName_unknown: "findTokenName ''unknown'' = None"
  by (simp add: findTokenName_def TOKEN_def toLowerCase_keys)
     (simp add: toLowerCase_def toLowerCase_char_def)

lemma getTokenBalance_handler_unknown:
  assumes "tokenName args = Some ''unknown''"
    and "or_else (wallet args) (account_address wc) = Some address"
  shows "snd (getTokenBalance_handler chain args wc cfg)
           = Inl (Error (''Failed to get token balance: Error: Token '' @ dquote @ ''unknown''
                          @ dquote @ '' not found. Available tokens: WMON, MONAI''))"
  using assms
  by (simp add: getTokenBalance_handler_def getTokenBalance_try_def falsy_def
        findTokenName_unknown token_not_found_message_def TOKEN_def Error_def String_error_def)

lemma parse_unknown:
  "parse demo_JSON (function_arguments unknown_token_call)
     = Inr \<lparr>wallet = None, tokenName = Some ''unknown''\<rparr>"
  by (simp add: demo_JSON_def unknown_token_call_def tokenName_payload_def dquote_def)

subsection \<open>A completed run\<close>

lemma sendMessage_completed:
  assumes "isInitialized a" and "assistant a = Some asst" and "thread a = Some th"
    and "messages_create (openAIClient a) (calls w) (thread_id th) ''user'' msg = Inr ()"
    and "createRun a
           (issue (MessagesCreate (thread_id th) ''user'' msg)
              (log LInfo (''Sending message: '' @ msg @ '' for wallet ''
                 @ (case account_address (walletClient a) of
                      None \<Rightarrow> ''undefined'' | Some address \<Rightarrow> address)) w))
           = Some (Inr run, w4)"
    and "status run = Completed"
    and "messages_list (openAIClient a) (calls w4) (thread_id th) = Inr messages"
  shows "map_option fst (sendMessage J a msg w)
           = Some (case messages of
                     [] \<Rightarrow> Inl (cannot_read_undefined ''role'')
                   | lastMessage # older \<Rightarrow>
                       if role lastMessage = ''assistant'' then
                         (case content lastMessage of
                            [] \<Rightarrow> Inl (cannot_read_undefined ''type'')
                          | TextContent t # cs \<Rightarrow> Inr t
                          | c # cs \<Rightarrow> Inl (Error ''Unexpected response format''))
                       else Inl (Error ''Unexpected response format''))"
proof -
  have nr: "\<not> requires_tool_outputs run"
    using assms(6) by (simp add: requires_tool_outputs_def)
  have pr: "performRun J a run th w4 = Some (performRun_result J a th run w4)"
    by (simp add: performRun_def performRun_loop_done [OF nr])
  show ?thesis
    using assms
    by (auto simp: sendMessage_def Let_def pr performRun_result_def
          split: list.splits content_block.splits)
qed

section \<open>The claims\<close>

subsection \<open>C1: identities after initialization\<close>

text \<open>
  Claim C1 says that once \<^verbatim>\<open>initialize()\<close> has completed successfully, the assistant
  identity and the thread identity of the session are both non-empty, and that the
  initialization flag only goes from false to true. The flag does (see
  \<open>isInitialized_initialize\<close> and \<open>isInitialized_sendMessage\<close>), and the assistant
  identity is stored when an assistant is created. The thread identity is not:
  \<^verbatim>\<open>initialize\<close> never assigns \<^verbatim>\<open>threadID\<close> (\<open>initialize_keeps_threadID\<close>). For a
  session constructed without a thread identity, \<^verbatim>\<open>initialize()\<close> succeeds, holds the
  created thread \<^verbatim>\<open>thread_new\<close>, and leaves \<^verbatim>\<open>threadID\<close> empty.
\<close>

theorem initialize_leaves_threadID_empty:
  "constructor (Inl (Error ''PRIVATE_KEY environment variable is not set.''))
       (demo_config client_ok None) = Inr (demo_session client_ok [])
   \<and> initialize (demo_session client_ok []) demo_world
       = (Inr (),
          demo_session client_ok []
            \<lparr> assistant := Some \<lparr>assistant_id = ''asst_1''\<rparr>,
              thread := Some \<lparr>thread_id = ''thread_new''\<rparr>,
              isInitialized := True \<rparr>,
          demo_world \<lparr> calls := [AssistantsRetrieve ''asst_1'', ThreadsCreate] \<rparr>)
   \<and> threadID (fst (snd (initialize (demo_session client_ok []) demo_world))) = []"
  by (simp add: constructor_def demo_config_def demo_session_def or_empty_def
        initialize_def initialize_assistant_def initialize_thread_def retrieveAssistant_def
        createThread_def falsy_def issue_def client_ok_def scripted_client_def demo_world_def)

subsection \<open>C2: the output for an unknown token\<close>

text \<open>
  Claim C2 says that a \<^verbatim>\<open>get_token_balance\<close> call for the token \<^verbatim>\<open>unknown\<close> is answered
  with the output \<^verbatim>\<open>Error: Token "unknown" not found. Available tokens: WMON, MONAI\<close>. As
  stated this fails: the handler catches its own error and throws a new one whose message
  starts with \<^verbatim>\<open>Failed to get token balance: \<close>. In the round that holds only this call,
  the only output is the longer text.
\<close>

theorem unknown_token_output_counterexample:
  "fst (dispatch_round demo_JSON (demo_ready client_ok) (toolRegistry0 demo_chain)
          [unknown_token_call])
     = [\<lparr>tool_call_id = ''call_1'', output_text = unknown_token_output\<rparr>]
   \<and> \<lparr>tool_call_id = ''call_1'', output_text = claimed_unknown_token_output\<rparr>
       \<notin> set (fst (dispatch_round demo_JSON (demo_ready client_ok) (toolRegistry0 demo_chain)
                    [unknown_token_call]))"
proof -
  have "or_else (wallet \<lparr>wallet = None, tokenName = Some ''unknown''\<rparr>)
          (account_address (walletClient (demo_ready client_ok))) = Some ''0xABC''"
    by (simp add: demo_ready_def demo_session_def demo_wallet_def or_else_def)
  then have h: "snd (getTokenBalance_handler demo_chain \<lparr>wallet = None, tokenName = Some ''unknown''\<rparr>
             (walletClient (demo_ready client_ok)) (toolEnvConfigs (demo_ready client_ok)))
          = Inl (Error (''Failed to get token balance: Error: Token '' @ dquote @ ''unknown''
                          @ dquote @ '' not found. Available tokens: WMON, MONAI''))"
    by (intro getTokenBalance_handler_unknown) simp_all
  have cb: "snd (toolCall_callback demo_JSON (demo_ready client_ok) (toolRegistry0 demo_chain)
                   unknown_token_call)
              = Fulfilled (Some \<lparr>tool_call_id = ''call_1'', output_text = unknown_token_output\<rparr>)"
    using h parse_unknown
    by (cases "getTokenBalance_handler demo_chain \<lparr>wallet = None, tokenName = Some ''unknown''\<rparr>
             (walletClient (demo_ready client_ok)) (toolEnvConfigs (demo_ready client_ok))")
       (simp add: toolCall_callback_def get_property_def toolRegistry0_def getTokenBalanceTool_def
          catch_output_snd errorMessage_def Error_def unknown_token_output_def
          unknown_token_call_def)
  have "unknown_token_output \<noteq> claimed_unknown_token_output"
    by (simp add: unknown_token_output_def claimed_unknown_token_output_def)
  then show ?thesis
    using cb by (simp add: dispatch_round_single)
qed

text \<open>
  Claim C2 as amended: when the built-in tool is registered under \<^verbatim>\<open>get_token_balance\<close>,
  the parsed arguments of a call in the round have the token name \<^verbatim>\<open>unknown\<close>, and a
  wallet address is there (in the arguments or in the session's wallet client), the output
  for that call's identity is
  \<^verbatim>\<open>Error: Failed to get token balance: Error: Token "unknown" not found. Available tokens: WMON, MONAI\<close>,
  it is among the outputs of the round, and the round goes on to submit its outputs: what
  \<^verbatim>\<open>handleRunToolCalls\<close> returns is the runtime's answer to the submission.
\<close>

theorem unknown_token_round:
  assumes "t \<in> set toolCalls"
    and "function_name t = ''get_token_balance''"
    and "map_of tls ''get_token_balance'' = Some (getTokenBalanceTool chain)"
    and "parse J (function_arguments t) = Inr args"
    and "tokenName args = Some ''unknown''"
    and "or_else (wallet args) (account_address (walletClient a)) = Some address"
  shows "snd (toolCall_callback J a tls t)
           = Fulfilled (Some \<lparr>tool_call_id = call_id t, output_text = unknown_token_output\<rparr>)
       \<and> \<lparr>tool_call_id = call_id t, output_text = unknown_token_output\<rparr>
            \<in> set (fst (dispatch_round J a tls toolCalls))
       \<and> (toolCalls_of run = Some toolCalls \<and> tls = initTools w \<longrightarrow>
            handleRunToolCalls J a run th w
              = (runs_submitToolOutputsAndPoll (openAIClient a) (calls w) (thread_id th)
                   (run_id run) (fst (dispatch_round J a tls toolCalls)),
                 issue (SubmitToolOutputsAndPoll (thread_id th) (run_id run)
                          (fst (dispatch_round J a tls toolCalls)))
                   (w\<lparr>logs := logs w @ snd (dispatch_round J a tls toolCalls)\<rparr>)))"
proof -
  have h: "snd (handler (getTokenBalanceTool chain) args (walletClient a) (toolEnvConfigs a))
             = Inl (Error (''Failed to get token balance: Error: Token '' @ dquote @ ''unknown''
                          @ dquote @ '' not found. Available tokens: WMON, MONAI''))"
    using getTokenBalance_handler_unknown [OF assms(5,6)]
    by (simp add: getTokenBalanceTool_def)
  have p: "get_property tls (function_name t) = Own (getTokenBalanceTool chain)"
    using assms(2,3) by (simp add: get_property_def)
  have cb: "snd (toolCall_callback J a tls t)
           = Fulfilled (Some \<lparr>tool_call_id = call_id t, output_text = unknown_token_output\<rparr>)"
    using p assms(4) h
    by (cases "handler (getTokenBalanceTool chain) args (walletClient a) (toolEnvConfigs a)")
       (simp add: toolCall_callback_def catch_output_snd errorMessage_def Error_def
          unknown_token_output_def)
  have mem: "\<lparr>tool_call_id = call_id t, output_text = unknown_token_output\<rparr>
            \<in> set (fst (dispatch_round J a tls toolCalls))"
    unfolding dispatch_round_filter using assms(1) cb by force
  then have ne: "fst (dispatch_round J a tls toolCalls) \<noteq> []" by auto
  show ?thesis
    using cb mem ne by (auto simp: handleRunToolCalls_submits)
qed

theorem unknown_token_round_witness:
  "snd (toolCall_callback demo_JSON (demo_ready client_ok) (toolRegistry0 demo_chain)
          unknown_token_call)
     = Fulfilled (Some \<lparr>tool_call_id = ''call_1'', output_text = unknown_token_output\<rparr>)
   \<and> \<lparr>tool_call_id = ''call_1'', output_text = unknown_token_output\<rparr>
        \<in> set (fst (dispatch_round demo_JSON (demo_ready client_ok) (toolRegistry0 demo_chain)
                     [balance_call, unknown_token_call]))
   \<and> handleRunToolCalls demo_JSON (demo_ready client_ok)
        (run_with RequiresAction [balance_call, unknown_token_call])
        \<lparr>thread_id = ''thread_1''\<rparr> demo_world
       = (Inr \<lparr>run_id = ''run_1'', status = Completed, required_action = None\<rparr>,
          issue (SubmitToolOutputsAndPoll ''thread_1'' ''run_1''
                   (fst (dispatch_round demo_JSON (demo_ready client_ok)
                           (toolRegistry0 demo_chain) [balance_call, unknown_token_call])))
            (demo_world\<lparr>logs := logs demo_world
                @ snd (dispatch_round demo_JSON (demo_ready client_ok)
                         (toolRegistry0 demo_chain) [balance_call, unknown_token_call])\<rparr>))"
proof -
  have t: "unknown_token_call \<in> set [balance_call, unknown_token_call]"
    "function_name unknown_token_call = ''get_token_balance''"
    "map_of (toolRegistry0 demo_chain) ''get_token_balance'' = Some (getTokenBalanceTool demo_chain)"
    "tokenName \<lparr>wallet = None, tokenName = Some ''unknown''\<rparr> = Some ''unknown''"
    "or_else (wallet \<lparr>wallet = None, tokenName = Some ''unknown''\<rparr>)
       (account_address (walletClient (demo_ready client_ok))) = Some ''0xABC''"
    by (simp_all add: unknown_token_call_def toolRegistry0_def demo_ready_def demo_session_def
          demo_wallet_def or_else_def)
  have tc: "toolCalls_of (run_with RequiresAction [balance_call, unknown_token_call])
              = Some [balance_call, unknown_token_call]"
    by (simp add: toolCalls_of_def run_with_def)
  have reg: "toolRegistry0 demo_chain = initTools demo_world"
    by (simp add: initTools_def demo_world_def)
  have w: "calls demo_world = []"
    "run_id (run_with RequiresAction [balance_call, unknown_token_call]) = ''run_1''"
    "call_id unknown_token_call = ''call_1''"
    "runs_submitToolOutputsAndPoll (openAIClient (demo_ready client_ok)) [] ''thread_1'' ''run_1''
       outs = Inr \<lparr>run_id = ''run_1'', status = Completed, required_action = None\<rparr>" for outs
    by (simp_all add: demo_world_def run_with_def unknown_token_call_def demo_ready_def
          demo_session_def client_ok_def scripted_client_def)
  note T = unknown_token_round [OF t(1,2,3) parse_unknown t(4,5),
             of "run_with RequiresAction [balance_call, unknown_token_call]" demo_world
                "\<lparr>thread_id = ''thread_1''\<rparr>"]
  from T tc reg w show ?thesis by simp
qed

subsection \<open>C3: one output for each registered call\<close>

text \<open>
  Claim C3 says that the number of outputs collected in a dispatch round is the number of
  requests whose tool name is in the registry, and that a request yields no output exactly
  when its tool name is absent, with a logged failure. As stated this fails in two ways.
  The name \<^verbatim>\<open>constructor\<close> is not in the registry, yet \<^verbatim>\<open>tools[name]\<close> finds it in the
  prototype: the call yields an output and nothing is logged. And a registered call whose
  handler throws a value without a string form, such as \<^verbatim>\<open>Object.create(null)\<close>, has its
  promise rejected: the loop over the settled results logs \<^verbatim>\<open>Tool call failed\<close> for it and
  collects no output.
\<close>

theorem outputs_match_registered_calls_counterexample:
  "\<not> registered (toolRegistry0 demo_chain) constructor_call
   \<and> fst (dispatch_round demo_JSON (demo_ready client_ok) (toolRegistry0 demo_chain)
            [constructor_call])
       = [\<lparr>tool_call_id = ''call_4'',
            output_text = ''Error: toolConfig.handler is not a function''\<rparr>]
   \<and> snd (dispatch_round demo_JSON (demo_ready client_ok) (toolRegistry0 demo_chain)
            [constructor_call]) = []
   \<and> registered (initTools opaque_world) opaque_call
   \<and> fst (dispatch_round demo_JSON (demo_ready client_ok) (initTools opaque_world)
            [opaque_call]) = []
   \<and> snd (dispatch_round demo_JSON (demo_ready client_ok) (initTools opaque_world)
            [opaque_call])
       = [(LError, ''Tool call failed: TypeError: Cannot convert object to primitive value'')]"
proof -
  have r: "\<not> registered (toolRegistry0 demo_chain) constructor_call"
    "registered (initTools opaque_world) opaque_call"
    by (simp_all add: registered_def toolRegistry0_def constructor_call_def opaque_registry
          opaque_call_def)
  have s: "String_error no_primitive_value
             = ''TypeError: Cannot convert object to primitive value''"
    by (simp add: String_error_def no_primitive_value_def)
  show ?thesis
    using r
    by (simp add: dispatch_round_single dispatch_round_logs constructor_callback
          opaque_callback first_segment_def later_segments_def s)
qed

text \<open>
  Claim C3 as amended, for a round in which no request names a property inherited from
  \<^verbatim>\<open>Object.prototype\<close>: the number of outputs collected for submission is the number of
  requests whose tool name is in the registry and whose callback is not rejected, and the
  outputs carry the identities of exactly these requests, in their order. A callback is
  rejected when what \<^verbatim>\<open>JSON.parse\<close> or the handler throws has no string form. A request
  yields no output exactly when its tool name is absent or its callback is rejected; for
  an absent name the line \<^verbatim>\<open>Tool <name> not found\<close> is logged as an error, for a rejected
  callback the line \<^verbatim>\<open>Tool call failed: <reason>\<close>. The lines of the round are in the log
  of the session's world, followed by the line \<^verbatim>\<open>No valid tool outputs to submit\<close> when
  there is no output; when there is one, the outputs are what is submitted.
\<close>

theorem outputs_match_registered_calls:
  assumes "\<forall>t \<in> set toolCalls. \<not> inherited tls t"
  shows "length (fst (dispatch_round J a tls toolCalls))
           = length (filter (\<lambda>t. registered tls t \<and> \<not> rejected J a tls t) toolCalls)
   \<and> map tool_call_id (fst (dispatch_round J a tls toolCalls))
       = map call_id (filter (\<lambda>t. registered tls t \<and> \<not> rejected J a tls t) toolCalls)
   \<and> (\<forall>t \<in> set toolCalls.
         (fst (dispatch_round J a tls [t]) = []) = (\<not> registered tls t \<or> rejected J a tls t)
         \<and> (\<not> registered tls t \<longrightarrow>
              snd (toolCall_callback J a tls t) = Fulfilled None
              \<and> (LError, ''Tool '' @ function_name t @ '' not found'')
                   \<in> set (snd (dispatch_round J a tls toolCalls)))
         \<and> (rejected J a tls t \<longrightarrow>
              (\<exists>reason. snd (toolCall_callback J a tls t) = Rejected reason
                 \<and> (LError, ''Tool call failed: '' @ String_error reason)
                      \<in> set (snd (dispatch_round J a tls toolCalls)))))
   \<and> (toolCalls_of run = Some toolCalls \<and> toolCalls \<noteq> [] \<and> tls = initTools w \<longrightarrow>
        logs (snd (handleRunToolCalls J a run th w))
          = logs w @ snd (dispatch_round J a tls toolCalls)
              @ (if fst (dispatch_round J a tls toolCalls) = []
                 then [(LInfo, ''No valid tool outputs to submit for run '' @ run_id run)]
                 else [])
        \<and> calls (snd (handleRunToolCalls J a run th w))
          = calls w
              @ (if fst (dispatch_round J a tls toolCalls) = [] then []
                 else [SubmitToolOutputsAndPoll (thread_id th) (run_id run)
                         (fst (dispatch_round J a tls toolCalls))]))"
proof (intro conjI)
  have iff: "(output_of (snd (toolCall_callback J a tls t)) \<noteq> None)
               = (registered tls t \<and> \<not> rejected J a tls t)" if "t \<in> set toolCalls" for t
    using that assms callback_output_iff [of tls t J a] by auto
  have flt: "filter (\<lambda>t. output_of (snd (toolCall_callback J a tls t)) \<noteq> None) toolCalls
               = filter (\<lambda>t. registered tls t \<and> \<not> rejected J a tls t) toolCalls"
  proof (rule filter_cong)
    show "toolCalls = toolCalls" by (rule refl)
  next
    fix t assume "t \<in> set toolCalls"
    then show "(output_of (snd (toolCall_callback J a tls t)) \<noteq> None)
                 = (registered tls t \<and> \<not> rejected J a tls t)"
      by (rule iff)
  qed
  show "length (fst (dispatch_round J a tls toolCalls))
           = length (filter (\<lambda>t. registered tls t \<and> \<not> rejected J a tls t) toolCalls)"
    unfolding dispatch_round_filter flt by simp
  have "map tool_call_id (fst (dispatch_round J a tls toolCalls))
          = map call_id (filter (\<lambda>t. output_of (snd (toolCall_callback J a tls t)) \<noteq> None)
                           toolCalls)"
    unfolding dispatch_round_filter
    by (induction toolCalls) (auto dest: callback_id)
  then show "map tool_call_id (fst (dispatch_round J a tls toolCalls))
       = map call_id (filter (\<lambda>t. registered tls t \<and> \<not> rejected J a tls t) toolCalls)"
    unfolding flt .
  show "\<forall>t \<in> set toolCalls.
         (fst (dispatch_round J a tls [t]) = []) = (\<not> registered tls t \<or> rejected J a tls t)
         \<and> (\<not> registered tls t \<longrightarrow>
              snd (toolCall_callback J a tls t) = Fulfilled None
              \<and> (LError, ''Tool '' @ function_name t @ '' not found'')
                   \<in> set (snd (dispatch_round J a tls toolCalls)))
         \<and> (rejected J a tls t \<longrightarrow>
              (\<exists>reason. snd (toolCall_callback J a tls t) = Rejected reason
                 \<and> (LError, ''Tool call failed: '' @ String_error reason)
                      \<in> set (snd (dispatch_round J a tls toolCalls))))"
  proof
    fix t assume t: "t \<in> set toolCalls"
    then have ni: "\<not> inherited tls t" using assms by blast
    have one: "(fst (dispatch_round J a tls [t]) = [])
                 = (\<not> registered tls t \<or> rejected J a tls t)"
      using callback_output_iff [OF ni, of J a]
      by (cases "output_of (snd (toolCall_callback J a tls t))")
         (simp_all add: dispatch_round_single)
    have absent: "snd (toolCall_callback J a tls t) = Fulfilled None
              \<and> (LError, ''Tool '' @ function_name t @ '' not found'')
                   \<in> set (snd (dispatch_round J a tls toolCalls))" if "\<not> registered tls t"
    proof -
      have cb: "toolCall_callback J a tls t
                  = ([[(LError, ''Tool '' @ function_name t @ '' not found'')]], Fulfilled None)"
        using that ni by (rule callback_absent)
      then have "(LError, ''Tool '' @ function_name t @ '' not found'')
                   \<in> set (first_segment (fst (toolCall_callback J a tls t)))"
        by (simp add: first_segment_def)
      then have "(LError, ''Tool '' @ function_name t @ '' not found'')
                   \<in> set (snd (dispatch_round J a tls toolCalls))"
        unfolding dispatch_round_logs using t by auto
      with cb show ?thesis by simp
    qed
    have rej: "\<exists>reason. snd (toolCall_callback J a tls t) = Rejected reason
                 \<and> (LError, ''Tool call failed: '' @ String_error reason)
                      \<in> set (snd (dispatch_round J a tls toolCalls))" if "rejected J a tls t"
    proof -
      from callback_rejected [OF that]
      obtain reason where r: "snd (toolCall_callback J a tls t) = Rejected reason" by blast
      then have "(LError, ''Tool call failed: '' @ String_error reason)
                   \<in> set (rejection_log (snd (toolCall_callback J a tls t)))"
        by simp
      then have "(LError, ''Tool call failed: '' @ String_error reason)
                   \<in> set (snd (dispatch_round J a tls toolCalls))"
        unfolding dispatch_round_logs using t by auto
      with r show ?thesis by blast
    qed
    from one absent rej
    show "(fst (dispatch_round J a tls [t]) = []) = (\<not> registered tls t \<or> rejected J a tls t)
         \<and> (\<not> registered tls t \<longrightarrow>
              snd (toolCall_callback J a tls t) = Fulfilled None
              \<and> (LError, ''Tool '' @ function_name t @ '' not found'')
                   \<in> set (snd (dispatch_round J a tls toolCalls)))
         \<and> (rejected J a tls t \<longrightarrow>
              (\<exists>reason. snd (toolCall_callback J a tls t) = Rejected reason
                 \<and> (LError, ''Tool call failed: '' @ String_error reason)
                      \<in> set (snd (dispatch_round J a tls toolCalls))))"
      by blast
  qed
  show "toolCalls_of run = Some toolCalls \<and> toolCalls \<noteq> [] \<and> tls = initTools w \<longrightarrow>
        logs (snd (handleRunToolCalls J a run th w))
          = logs w @ snd (dispatch_round J a tls toolCalls)
              @ (if fst (dispatch_round J a tls toolCalls) = []
                 then [(LInfo, ''No valid tool outputs to submit for run '' @ run_id run)]
                 else [])
        \<and> calls (snd (handleRunToolCalls J a run th w))
          = calls w
              @ (if fst (dispatch_round J a tls toolCalls) = [] then []
                 else [SubmitToolOutputsAndPoll (thread_id th) (run_id run)
                         (fst (dispatch_round J a tls toolCalls))])"
    by (auto simp: handleRunToolCalls_round log_def)
qed

theorem outputs_match_registered_calls_witness:
  "length (fst (dispatch_round demo_JSON (demo_ready client_ok) (initTools opaque_world)
             [unknown_tool_call, balance_call, opaque_call])) = 1
   \<and> map tool_call_id (fst (dispatch_round demo_JSON (demo_ready client_ok)
             (initTools opaque_world) [unknown_tool_call, balance_call, opaque_call]))
       = [''call_2'']
   \<and> snd (toolCall_callback demo_JSON (demo_ready client_ok) (initTools opaque_world)
             unknown_tool_call) = Fulfilled None
   \<and> (LError, ''Tool swap not found'')
        \<in> set (snd (dispatch_round demo_JSON (demo_ready client_ok) (initTools opaque_world)
             [unknown_tool_call, balance_call, opaque_call]))
   \<and> (LError, ''Tool call failed: TypeError: Cannot convert object to primitive value'')
        \<in> set (snd (dispatch_round demo_JSON (demo_ready client_ok) (initTools opaque_world)
             [unknown_tool_call, balance_call, opaque_call]))
   \<and> logs (snd (handleRunToolCalls demo_JSON (demo_ready client_ok)
                   (run_with RequiresAction [unknown_tool_call, balance_call, opaque_call])
                   \<lparr>thread_id = ''thread_1''\<rparr> opaque_world))
       = snd (dispatch_round demo_JSON (demo_ready client_ok) (initTools opaque_world)
                [unknown_tool_call, balance_call, opaque_call])
   \<and> calls (snd (handleRunToolCalls demo_JSON (demo_ready client_ok)
                    (run_with RequiresAction [unknown_tool_call, balance_call, opaque_call])
                    \<lparr>thread_id = ''thread_1''\<rparr> opaque_world))
       = [SubmitToolOutputsAndPoll ''thread_1'' ''run_1''
            [\<lparr>tool_call_id = ''call_2'', output_text = ''1.5''\<rparr>]]
   \<and> logs (snd (handleRunToolCalls demo_JSON (demo_ready client_ok)
                   (run_with RequiresAction [unknown_tool_call])
                   \<lparr>thread_id = ''thread_1''\<rparr> opaque_world))
       = [(LError, ''Tool swap not found''),
          (LInfo, ''No valid tool outputs to submit for run run_1'')]
   \<and> calls (snd (handleRunToolCalls demo_JSON (demo_ready client_ok)
                    (run_with RequiresAction [unknown_tool_call])
                    \<lparr>thread_id = ''thread_1''\<rparr> opaque_world)) = []"
proof -
  let ?tls = "initTools opaque_world"
  let ?round = "[unknown_tool_call, balance_call, opaque_call]"
  have reg: "\<not> registered ?tls unknown_tool_call" "registered ?tls balance_call"
    "registered ?tls opaque_call"
    by (simp_all add: registered_def opaque_registry toolRegistry0_def unknown_tool_call_def
          balance_call_def opaque_call_def)
  have ni: "\<forall>t \<in> set ?round. \<not> inherited ?tls t"
    using reg
    by (simp add: inherited_def unknown_tool_call_def Object_prototype_names_def)
  have rej: "rejected demo_JSON (demo_ready client_ok) ?tls opaque_call"
    "\<not> rejected demo_JSON (demo_ready client_ok) ?tls balance_call"
    by (simp_all add: rejected_def thrown_in_try_def opaque_registry toolRegistry0_def
          opaque_call_def balance_call_def demo_JSON_def opaque_tool_def no_string_form_def
          getBalanceTool_def getBalance_handler_def demo_ready_def demo_session_def
          demo_wallet_def or_else_def demo_chain_def)
  have bal: "snd (toolCall_callback demo_JSON (demo_ready client_ok) ?tls balance_call)
               = Fulfilled (Some \<lparr>tool_call_id = ''call_2'', output_text = ''1.5''\<rparr>)"
    by (rule balance_output) (simp add: opaque_registry toolRegistry0_def)
  have unk: "snd (toolCall_callback demo_JSON (demo_ready client_ok) ?tls unknown_tool_call)
               = Fulfilled None"
    using reg(1) ni by (simp add: callback_absent)
  have outs: "fst (dispatch_round demo_JSON (demo_ready client_ok) ?tls ?round)
                = [\<lparr>tool_call_id = ''call_2'', output_text = ''1.5''\<rparr>]"
    by (simp add: dispatch_round_outputs List.map_filter_simps bal unk opaque_callback)
  have tc: "toolCalls_of (run_with RequiresAction ?round) = Some ?round"
    by (simp add: toolCalls_of_def run_with_def)
  have w: "calls opaque_world = []" "logs opaque_world = []"
    "run_id (run_with RequiresAction ?round) = ''run_1''"
    by (simp_all add: opaque_world_def demo_world_def run_with_def)
  have f: "function_name unknown_tool_call = ''swap''"
    by (simp add: unknown_tool_call_def)
  have s: "String_error no_primitive_value
             = ''TypeError: Cannot convert object to primitive value''"
    by (simp add: String_error_def no_primitive_value_def)
  note T = outputs_match_registered_calls [OF ni, of demo_JSON "demo_ready client_ok"
             "run_with RequiresAction ?round" opaque_world "\<lparr>thread_id = ''thread_1''\<rparr>"]
  from T reg rej outs tc w f s opaque_callback [of client_ok]
  have mixed: "length (fst (dispatch_round demo_JSON (demo_ready client_ok) ?tls ?round)) = 1
   \<and> map tool_call_id (fst (dispatch_round demo_JSON (demo_ready client_ok) ?tls ?round))
       = [''call_2'']
   \<and> snd (toolCall_callback demo_JSON (demo_ready client_ok) ?tls unknown_tool_call)
       = Fulfilled None
   \<and> (LError, ''Tool swap not found'')
        \<in> set (snd (dispatch_round demo_JSON (demo_ready client_ok) ?tls ?round))
   \<and> (LError, ''Tool call failed: TypeError: Cannot convert object to primitive value'')
        \<in> set (snd (dispatch_round demo_JSON (demo_ready client_ok) ?tls ?round))
   \<and> logs (snd (handleRunToolCalls demo_JSON (demo_ready client_ok)
                   (run_with RequiresAction ?round) \<lparr>thread_id = ''thread_1''\<rparr> opaque_world))
       = snd (dispatch_round demo_JSON (demo_ready client_ok) ?tls ?round)
   \<and> calls (snd (handleRunToolCalls demo_JSON (demo_ready client_ok)
                    (run_with RequiresAction ?round) \<lparr>thread_id = ''thread_1''\<rparr> opaque_world))
       = [SubmitToolOutputsAndPoll ''thread_1'' ''run_1''
            [\<lparr>tool_call_id = ''call_2'', output_text = ''1.5''\<rparr>]]"
    by auto
  have ni1: "\<forall>t \<in> set [unknown_tool_call]. \<not> inherited ?tls t"
    using ni by simp
  have cb1: "toolCall_callback demo_JSON (demo_ready client_ok) ?tls unknown_tool_call
               = ([[(LError, ''Tool swap not found'')]], Fulfilled None)"
    using reg(1) ni f callback_absent [of ?tls unknown_tool_call demo_JSON "demo_ready client_ok"]
    by simp
  have outs1: "fst (dispatch_round demo_JSON (demo_ready client_ok) ?tls [unknown_tool_call]) = []"
    by (simp add: dispatch_round_single cb1)
  have logs1: "snd (dispatch_round demo_JSON (demo_ready client_ok) ?tls [unknown_tool_call])
                 = [(LError, ''Tool swap not found'')]"
    by (simp add: dispatch_round_logs cb1 first_segment_def later_segments_def)
  have tc1: "toolCalls_of (run_with RequiresAction [unknown_tool_call]) = Some [unknown_tool_call]"
    "run_id (run_with RequiresAction [unknown_tool_call]) = ''run_1''"
    by (simp_all add: toolCalls_of_def run_with_def)
  note T1 = outputs_match_registered_calls [OF ni1, of demo_JSON "demo_ready client_ok"
             "run_with RequiresAction [unknown_tool_call]" opaque_world
             "\<lparr>thread_id = ''thread_1''\<rparr>"]
  from T1 outs1 logs1 tc1 w
  have unknown: "logs (snd (handleRunToolCalls demo_JSON (demo_ready client_ok)
                   (run_with RequiresAction [unknown_tool_call])
                   \<lparr>thread_id = ''thread_1''\<rparr> opaque_world))
       = [(LError, ''Tool swap not found''),
          (LInfo, ''No valid tool outputs to submit for run run_1'')]
   \<and> calls (snd (handleRunToolCalls demo_JSON (demo_ready client_ok)
                    (run_with RequiresAction [unknown_tool_call])
                    \<lparr>thread_id = ''thread_1''\<rparr> opaque_world)) = []"
    by simp
  from mixed unknown show ?thesis by blast
qed

subsection \<open>C4: a round without outputs\<close>

text \<open>
  Claim C4: when a run requires tool outputs and its dispatch round collects none,
  \<^verbatim>\<open>handleRunToolCalls\<close> issues no remote operation and returns the run as it was, so
  the loop of \<^verbatim>\<open>performRun\<close> handles the same run again and again: it never ends, and
  neither does \<^verbatim>\<open>performRun\<close>.
\<close>

theorem empty_round_makes_no_progress:
  assumes "requires_tool_outputs run" and "no_outputs J a (toolRegistry w) run"
  shows "(\<exists>w'. handleRunToolCalls J a run th w = (Inr run, w') \<and> calls w' = calls w)
         \<and> performRun_loop J a th run w = None \<and> performRun J a run th w = None"
proof -
  have n: "performRun_loop J a th run w = None"
    using performRun_loop_stuck_aux [of J a th run w] assms by (cases "performRun_loop J a th run w") auto
  then show ?thesis
    using handleRunToolCalls_no_outputs [OF assms(2), of th] by (auto simp: performRun_def)
qed

theorem empty_round_makes_no_progress_witness:
  "requires_tool_outputs (run_with RequiresAction [unknown_tool_call])
   \<and> no_outputs demo_JSON (demo_ready client_stuck) (toolRegistry demo_world)
        (run_with RequiresAction [unknown_tool_call])
   \<and> performRun_loop demo_JSON (demo_ready client_stuck) \<lparr>thread_id = ''thread_1''\<rparr>
        (run_with RequiresAction [unknown_tool_call]) demo_world = None
   \<and> performRun demo_JSON (demo_ready client_stuck) (run_with RequiresAction [unknown_tool_call])
        \<lparr>thread_id = ''thread_1''\<rparr> demo_world = None"
proof -
  have r: "requires_tool_outputs (run_with RequiresAction [unknown_tool_call])"
    by (simp add: requires_tool_outputs_def run_with_def)
  have n: "no_outputs demo_JSON (demo_ready client_stuck) (toolRegistry demo_world)
        (run_with RequiresAction [unknown_tool_call])"
    using registered_demo(1)
    by (simp add: no_outputs_def toolCalls_of_def run_with_def demo_world_def
          dispatch_round_single callback_absent inherited_def unknown_tool_call_def
          Object_prototype_names_def)
  show ?thesis
    using empty_round_makes_no_progress [OF r n, of "\<lparr>thread_id = ''thread_1''\<rparr>"] r n
    by simp
qed

subsection \<open>C5: what a handler returns or throws\<close>



subsection \<open>C6: initialize is idempotent\<close>

text \<open>
  Claim C6: on a session that is already initialized, \<^verbatim>\<open>initialize()\<close> leaves the session
  as it is and issues no remote operation; it only logs one line. In particular this is so
  for the second of two calls when the first has succeeded.
\<close>

theorem initialize_idempotent:
  "(isInitialized a \<longrightarrow>
      initialize a w = (Inr (), a, w\<lparr>logs := logs w @ [(LInfo, ''Agent already initialized'')]\<rparr>))
   \<and> (initialize a w = (Inr u, a1, w1) \<longrightarrow>
      initialize a1 w1
        = (Inr (), a1, w1\<lparr>logs := logs w1 @ [(LInfo, ''Agent already initialized'')]\<rparr>))"
  using initialize_sets_flag [of a w u a1 w1]
  by (simp add: initialize_def log_def)

theorem initialize_idempotent_witness:
  "isInitialized (demo_ready client_ok)
   \<and> initialize (demo_ready client_ok) demo_world
       = (Inr (), demo_ready client_ok,
          demo_world\<lparr>logs := logs demo_world @ [(LInfo, ''Agent already initialized'')]\<rparr>)
   \<and> initialize (demo_session client_ok ''thread_1'') demo_world
       = (Inr (), demo_ready client_ok,
          demo_world\<lparr>calls := [AssistantsRetrieve ''asst_1'', ThreadsRetrieve ''thread_1'']\<rparr>)
   \<and> initialize (demo_ready client_ok)
         (demo_world\<lparr>calls := [AssistantsRetrieve ''asst_1'', ThreadsRetrieve ''thread_1'']\<rparr>)
       = (Inr (), demo_ready client_ok,
          demo_world\<lparr>calls := [AssistantsRetrieve ''asst_1'', ThreadsRetrieve ''thread_1''],
                      logs := [(LInfo, ''Agent already initialized'')]\<rparr>)"
proof -
  have first: "initialize (demo_session client_ok ''thread_1'') demo_world
       = (Inr (), demo_ready client_ok,
          demo_world\<lparr>calls := [AssistantsRetrieve ''asst_1'', ThreadsRetrieve ''thread_1'']\<rparr>)"
    by (simp add: initialize_def initialize_assistant_def initialize_thread_def
          retrieveAssistant_def retrieveThread_def issue_def demo_session_def demo_ready_def
          client_ok_def scripted_client_def demo_world_def)
  have i: "isInitialized (demo_ready client_ok)"
    by (simp add: demo_ready_def)
  from initialize_idempotent [of "demo_ready client_ok" demo_world]
       initialize_idempotent [of "demo_session client_ok ''thread_1''" demo_world "()"
         "demo_ready client_ok"
         "demo_world\<lparr>calls := [AssistantsRetrieve ''asst_1'', ThreadsRetrieve ''thread_1'']\<rparr>"]
       first i
  show ?thesis by (simp add: demo_world_def)
qed

subsection \<open>C7: the thread is retrieved or created\<close>

text \<open>
  Claim C7: for a session as the constructor makes it, an \<^verbatim>\<open>initialize()\<close> that gets
  past resolving the assistant issues exactly one thread operation: the retrieval of the
  supplied thread identity when one was supplied at construction, the creation of a thread
  when none was.
\<close>

theorem initialize_thread_resolution:
  assumes "constructor cv config = Inr a"
    and "initialize_assistant a w = (Inr u, a1, w1)"
  shows "filter is_thread_op (issued_during w (snd (snd (initialize a w))))
           = (if falsy (cfg_threadId config) then [ThreadsCreate]
              else [ThreadsRetrieve (or_empty (cfg_threadId config))])"
proof -
  from assms(1) have ni: "\<not> isInitialized a" and tid: "threadID a = or_empty (cfg_threadId config)"
    by (auto simp: constructor_def split: option.splits sum.splits)
  from assms(2) obtain ops where ops: "calls w1 = calls w @ ops" "filter is_thread_op ops = []"
    using initialize_assistant_calls by blast
  from assms(2) have t1: "threadID a1 = threadID a" using initialize_assistant_frame by blast
  have "calls (snd (snd (initialize a w))) = calls (snd (snd (initialize_thread a1 w1)))"
    using ni assms(2) by (simp add: initialize_def split: prod.splits sum.splits)
  also have "\<dots> = calls w @ ops @ [if threadID a = [] then ThreadsCreate else ThreadsRetrieve (threadID a)]"
    by (simp add: initialize_thread_calls ops t1)
  finally show ?thesis
    using ops(2) tid by (auto simp: issued_during_def is_thread_op_def falsy_def or_empty_def split: option.splits)
qed

theorem initialize_thread_resolution_witness:
  "filter is_thread_op (issued_during demo_world
       (snd (snd (initialize (demo_session client_ok ''thread_1'') demo_world))))
     = [ThreadsRetrieve ''thread_1'']
   \<and> filter is_thread_op (issued_during demo_world
       (snd (snd (initialize (demo_session client_ok []) demo_world))))
     = [ThreadsCreate]"
proof -
  have c1: "constructor (Inl (Error ''PRIVATE_KEY environment variable is not set.''))
              (demo_config client_ok (Some ''thread_1'')) = Inr (demo_session client_ok ''thread_1'')"
    by (simp add: constructor_def demo_config_def demo_session_def or_empty_def)
  have c2: "constructor (Inl (Error ''PRIVATE_KEY environment variable is not set.''))
              (demo_config client_ok None) = Inr (demo_session client_ok [])"
    by (simp add: constructor_def demo_config_def demo_session_def or_empty_def)
  have a: "initialize_assistant (demo_session client_ok tid) demo_world
             = (Inr (), (demo_session client_ok tid)\<lparr>assistant := Some \<lparr>assistant_id = ''asst_1''\<rparr>\<rparr>,
                issue (AssistantsRetrieve ''asst_1'') demo_world)" for tid
    by (simp add: initialize_assistant_def retrieveAssistant_def demo_session_def client_ok_def
          scripted_client_def)
  show ?thesis
    using initialize_thread_resolution [OF c1 a] initialize_thread_resolution [OF c2 a]
    by (simp add: demo_config_def falsy_def or_empty_def)
qed

subsection \<open>C8: polling ends\<close>

text \<open>
  Claim C8: on an initialized session, when appending the message succeeds and the
  runtime follows a script of polls in which every run before the last is queued or in
  progress and the last is completed (a queued run that is found in progress and then
  completed, for one), and the most recent message is an assistant message that starts
  with the text \<open>t\<close>, then \<^verbatim>\<open>sendMessage\<close> returns, and returns \<open>t\<close>. The remote
  operations it issues are the message, the run, one poll for each run before the last,
  and the listing of the messages: no status is fetched after the completed one.
\<close>

theorem polling_terminates:
  assumes init: "isInitialized a" "assistant a = Some asst" "thread a = Some th"
    and mc: "messages_create (openAIClient a) (calls w) (thread_id th) ''user'' msg = Inr ()"
    and rc: "runs_create (openAIClient a) (calls w @ [MessagesCreate (thread_id th) ''user'' msg])
               (threadID a) (assistantId a) = Inr r0"
    and script: "follows_script a
               (calls w @ [MessagesCreate (thread_id th) ''user'' msg,
                           RunsCreate (threadID a) (assistantId a)]) r0 ps"
    and transient: "\<forall>r \<in> set (butlast (r0 # ps)). transient r"
    and completed: "status (last (r0 # ps)) = Completed"
    and ml: "messages_list (openAIClient a)
               (calls w @ [MessagesCreate (thread_id th) ''user'' msg,
                           RunsCreate (threadID a) (assistantId a)]
                  @ polls_of a (butlast (r0 # ps)))
               (thread_id th) = Inr (\<lparr>role = ''assistant'', content = TextContent t # cs\<rparr> # older)"
  shows "\<exists>w'. sendMessage J a msg w = Some (Inr t, a, w')
           \<and> calls w' = calls w @ [MessagesCreate (thread_id th) ''user'' msg,
                                   RunsCreate (threadID a) (assistantId a)]
                           @ polls_of a (butlast (r0 # ps))
                           @ [MessagesList (thread_id th)]"
proof -
  let ?w2 = "log LInfo (''Sending message: '' @ msg @ '' for wallet ''
                @ (case account_address (walletClient a) of
                     None \<Rightarrow> ''undefined'' | Some address \<Rightarrow> address)) w"
  let ?w3 = "issue (MessagesCreate (thread_id th) ''user'' msg) ?w2"
  let ?w3' = "log LInfo (''Running for thread '' @ threadID a @ '' with assistant ''
                @ assistantId a) ?w3"
  let ?w4 = "issue (RunsCreate (threadID a) (assistantId a)) ?w3'"
  define final where "final = last (r0 # ps)"
  have fin: "status final = Completed"
    using completed by (simp add: final_def)
  have nt: "\<not> transient (last (r0 # ps))"
    using completed by (simp add: transient_def)
  have "follows_script a (calls ?w4) r0 ps"
    using script by simp
  from createRun_poll_script [OF this transient nt]
  obtain w5 where poll: "createRun_poll a r0 ?w4 = Some (Inr final, w5)"
    and c5: "calls w5 = calls ?w4 @ polls_of a (butlast (r0 # ps))"
    unfolding final_def by blast
  have cr: "createRun a ?w3 = Some (Inr final, w5)"
    using rc poll by (simp add: createRun_def Let_def)
  have ml5: "messages_list (openAIClient a) (calls w5) (thread_id th)
               = Inr (\<lparr>role = ''assistant'', content = TextContent t # cs\<rparr> # older)"
    using ml c5 by simp
  have nr: "\<not> requires_tool_outputs final"
    using fin by (simp add: requires_tool_outputs_def)
  have pr: "performRun J a final th w5
              = Some (Inr (Some (TextContent t)),
                      issue (MessagesList (thread_id th)) (log LInfo (stringify J final) w5))"
    using fin ml5
    by (simp add: performRun_def performRun_loop_done [OF nr] performRun_result_def Let_def)
  have "sendMessage J a msg w
          = Some (Inr t, a, issue (MessagesList (thread_id th)) (log LInfo (stringify J final) w5))"
    using init mc cr pr by (simp add: sendMessage_def Let_def)
  then show ?thesis
    using c5 by simp
qed

theorem polling_terminates_witness:
  "\<exists>w'. sendMessage demo_JSON (demo_ready client_ok) ''balance?'' demo_world
           = Some (Inr ''Your balance is 1.5'', demo_ready client_ok, w')
       \<and> calls w' = [MessagesCreate ''thread_1'' ''user'' ''balance?'',
                      RunsCreate ''thread_1'' ''asst_1'',
                      RunsRetrieve ''thread_1'' ''run_1'',
                      RunsRetrieve ''thread_1'' ''run_1'',
                      MessagesList ''thread_1'']"
proof -
  have script: "follows_script (demo_ready client_ok)
                  (calls demo_world @ [MessagesCreate (thread_id \<lparr>thread_id = ''thread_1''\<rparr>)
                                         ''user'' ''balance?'',
                     RunsCreate (threadID (demo_ready client_ok))
                       (assistantId (demo_ready client_ok))])
                  (run_with Queued []) [run_with InProgress [], run_with Completed []]"
    by (simp add: follows_script_def polls_of_def demo_ready_def demo_session_def client_ok_def
          scripted_client_def demo_world_def run_with_def is_RunsRetrieve_def less_Suc_eq)
  show ?thesis
    using polling_terminates [of "demo_ready client_ok" "\<lparr>assistant_id = ''asst_1''\<rparr>"
          "\<lparr>thread_id = ''thread_1''\<rparr>" demo_world "''balance?''"
          "run_with Queued []" "[run_with InProgress [], run_with Completed []]"
          "''Your balance is 1.5''" "[]" "[\<lparr>role = ''user'', content = [TextContent ''balance?'']\<rparr>]"
          demo_JSON, OF _ _ _ _ _ script]
    by (simp add: demo_ready_def demo_session_def client_ok_def scripted_client_def demo_world_def
        run_with_def transient_def polls_of_def)
qed

subsection \<open>C9: the shape of the final message\<close>

text \<open>
  Claim C9 says that after a completed run \<^verbatim>\<open>sendMessage\<close> returns the text of the most
  recent message when that is an assistant message starting with a text block, and fails
  with the format error in every other shape, the empty list of messages included. For
  the text, a wrong role and a leading block that is not text this is so
  (\<open>sendMessage_completed\<close>). For the empty list it is not: \<^verbatim>\<open>messages.data[0]\<close> is
  \<^verbatim>\<open>undefined\<close>, reading its \<^verbatim>\<open>role\<close> throws a \<^verbatim>\<open>TypeError\<close>, and this error, not
  \<^verbatim>\<open>Unexpected response format\<close>, is what \<^verbatim>\<open>sendMessage\<close> rejects with.
\<close>

theorem empty_message_list_type_error:
  "map_option fst (sendMessage demo_JSON (demo_ready client_empty) ''balance?'' demo_world)
     = Some (Inl (TypeError (''Cannot read properties of undefined (reading '' @ squote
                              @ ''role'' @ squote @ '')'')))
   \<and> TypeError (''Cannot read properties of undefined (reading '' @ squote @ ''role''
                  @ squote @ '')'')
       \<noteq> Error ''Unexpected response format''"
proof -
  have cr: "createRun (demo_ready client_empty) w = Some (Inr (run_with Completed []),
              issue (RunsCreate ''thread_1'' ''asst_1'')
                (log LInfo ''Running for thread thread_1 with assistant asst_1'' w))"
    for w :: "GetTokenBalanceArgs World"
    by (simp add: createRun_def createRun_poll_done demo_ready_def demo_session_def client_empty_def
          scripted_client_def run_with_def)
  have "map_option fst (sendMessage demo_JSON (demo_ready client_empty) ''balance?'' demo_world)
          = Some (Inl (cannot_read_undefined ''role''))"
    using sendMessage_completed [of "demo_ready client_empty" "\<lparr>assistant_id = ''asst_1''\<rparr>"
            "\<lparr>thread_id = ''thread_1''\<rparr>" demo_world "''balance?''" "run_with Completed []"
            _ "[]" demo_JSON, OF _ _ _ _ cr]
    by (simp add: demo_ready_def demo_session_def client_empty_def scripted_client_def
          run_with_def)
  then show ?thesis
    by (simp add: cannot_read_undefined_def TypeError_def Error_def)
qed

subsection \<open>C10: token names are matched without regard to case\<close>

text \<open>
  Claim C10: when the token name of the arguments equals a name of the token table up to
  the case of its letters, the handler finds that name and goes on with its address: the
  result of its \<^verbatim>\<open>try\<close> block is what reading the balance at that address and formatting
  it gives. No name is found exactly when no name of the table equals the argument up to
  case, and then the block throws the error that lists the available tokens.
\<close>

theorem token_resolution_case_insensitive:
  assumes "tokenName args = Some name"
    and "or_else (wallet args) (account_address wc) = Some address"
  shows "((key, tokenAddress) \<in> set TOKEN \<and> toLowerCase name = toLowerCase key \<longrightarrow>
            findTokenName name = Some key
            \<and> snd (getTokenBalance_try chain args wc)
                = (case readContract_balanceOf chain tokenAddress address of
                     Inl e \<Rightarrow> Inl e
                   | Inr rawTokenBalance \<Rightarrow>
                       fetchTokenDecimalsAndFormatAmount chain tokenAddress rawTokenBalance))
       \<and> ((findTokenName name = None)
            = (\<forall>key \<in> set (map fst TOKEN). toLowerCase key \<noteq> toLowerCase name))
       \<and> (findTokenName name = None \<and> name \<noteq> [] \<longrightarrow>
            snd (getTokenBalance_try chain args wc)
              = Inl (Error (token_not_found_message name)))"
proof (intro conjI impI)
  assume k: "(key, tokenAddress) \<in> set TOKEN \<and> toLowerCase name = toLowerCase key"
  then have f: "findTokenName name = Some key" "map_of TOKEN key = Some tokenAddress" "name \<noteq> []"
    using findTokenName_match by blast+
  show "findTokenName name = Some key" by (rule f(1))
  show "snd (getTokenBalance_try chain args wc)
                = (case readContract_balanceOf chain tokenAddress address of
                     Inl e \<Rightarrow> Inl e
                   | Inr rawTokenBalance \<Rightarrow>
                       fetchTokenDecimalsAndFormatAmount chain tokenAddress rawTokenBalance)"
    using assms f
    by (simp add: getTokenBalance_try_def falsy_def Let_def split: sum.splits)
next
  show "(findTokenName name = None)
            = (\<forall>key \<in> set (map fst TOKEN). toLowerCase key \<noteq> toLowerCase name)"
    by (simp add: findTokenName_def find_None_iff)
next
  assume "findTokenName name = None \<and> name \<noteq> []"
  then show "snd (getTokenBalance_try chain args wc)
               = Inl (Error (token_not_found_message name))"
    using assms by (simp add: getTokenBalance_try_def falsy_def Let_def)
qed

theorem token_resolution_case_insensitive_witness:
  "findTokenName ''wmon'' = Some ''WMON''
   \<and> snd (getTokenBalance_try demo_chain \<lparr>wallet = None, tokenName = Some ''wmon''\<rparr> demo_wallet)
       = Inr ''1.5''
   \<and> findTokenName ''unknown'' = None
   \<and> snd (getTokenBalance_try demo_chain \<lparr>wallet = None, tokenName = Some ''unknown''\<rparr>
             demo_wallet)
       = Inl (Error (token_not_found_message ''unknown''))"
proof -
  have l: "toLowerCase ''wmon'' = toLowerCase ''WMON''"
    by code_simp
  have m: "(''WMON'', ''0x760AfE86e5de5fa0Ee542fc7B7B713e1c5425701'') \<in> set TOKEN"
    by (simp add: TOKEN_def)
  have n: "\<forall>key \<in> set (map fst TOKEN). toLowerCase key \<noteq> toLowerCase ''unknown''"
    by (simp add: TOKEN_def toLowerCase_keys) (simp add: toLowerCase_def toLowerCase_char_def)
  have a: "or_else (wallet \<lparr>wallet = None, tokenName = Some name\<rparr>) (account_address demo_wallet)
             = Some ''0xABC''" for name
    by (simp add: demo_wallet_def or_else_def)
  from token_resolution_case_insensitive [of "\<lparr>wallet = None, tokenName = Some ''wmon''\<rparr>"
            "''wmon''" demo_wallet "''0xABC''" "''WMON''"
            "''0x760AfE86e5de5fa0Ee542fc7B7B713e1c5425701''" demo_chain, OF _ a]
       token_resolution_case_insensitive [of "\<lparr>wallet = None, tokenName = Some ''unknown''\<rparr>"
            "''unknown''" demo_wallet "''0xABC''" "''WMON''"
            "''0x760AfE86e5de5fa0Ee542fc7B7B713e1c5425701''" demo_chain, OF _ a]
       l m n
  show ?thesis
    by (simp add: demo_chain_def)
qed

end
